theory Spec2Isabelle
  imports Main "HOL-Library.Word" "HOL-Library.Multiset"
begin

unbundle bit_operations_syntax

section \<open>Vulkan types, constants and macros used by main.cc\<close>

text \<open>
  The program under verification is \<^verbatim>\<open>examples/vulkan-hello/src/main.cc\<close>: one helper,
  \<^verbatim>\<open>ApiVersionToStr\<close>, and \<^verbatim>\<open>main\<close>. Everything it takes from \<^verbatim>\<open><vulkan/vulkan.h>\<close>
  (types, constants, macros, entry points) belongs to the Vulkan headers and the installed
  loader, not to the repository. The types and macros are written out below with the
  values the Vulkan headers give them; the entry points are the fields of a \<open>driver\<close>
  record, one per response the program can observe. What the C++ runtime decides, whether
  the vector of line 55 can be allocated, is the field of a \<open>host\<close> record.
\<close>

type_synonym u32 = "32 word"

text \<open>\<^verbatim>\<open>VkResult\<close> is a C enum with a 32-bit signed representation; \<open>sint\<close> reads it.\<close>
type_synonym VkResult = "32 word"

text \<open>Dispatchable handles are pointers; a 64-bit value, \<^verbatim>\<open>VK_NULL_HANDLE\<close> is 0.\<close>
type_synonym VkInstance = "64 word"
type_synonym VkPhysicalDevice = "64 word"

text \<open>
  Modelled from the spec: the constants \<^verbatim>\<open>VK_SUCCESS\<close> and \<^verbatim>\<open>VK_NULL_HANDLE\<close> of
  \<^verbatim>\<open><vulkan/vulkan.h>\<close> are not under src/. Success is the status 0, every other value
  is a non-success status; the null handle is 0.
\<close>
definition VK_SUCCESS :: VkResult where
  "VK_SUCCESS = 0"

definition VK_NULL_HANDLE :: "64 word" where
  "VK_NULL_HANDLE = 0"

text \<open>
  Modelled from the spec: the version macros of \<^verbatim>\<open><vulkan/vulkan.h>\<close> are not under src/.
  A packed version holds the major number from bit 22 up, the minor number in bits
  12 to 21 and the patch number in bits 0 to 11.
\<close>
definition VK_MAKE_VERSION :: "u32 \<Rightarrow> u32 \<Rightarrow> u32 \<Rightarrow> u32" where
  "VK_MAKE_VERSION major minor patch = push_bit 22 major OR push_bit 12 minor OR patch"

definition VK_VERSION_MAJOR :: "u32 \<Rightarrow> u32" where
  "VK_VERSION_MAJOR v = drop_bit 22 v"

definition VK_VERSION_MINOR :: "u32 \<Rightarrow> u32" where
  "VK_VERSION_MINOR v = drop_bit 12 v AND 0x3FF"

definition VK_VERSION_PATCH :: "u32 \<Rightarrow> u32" where
  "VK_VERSION_PATCH v = v AND 0xFFF"

definition VK_API_VERSION_1_0 :: u32 where
  "VK_API_VERSION_1_0 = VK_MAKE_VERSION 1 0 0"

definition VK_API_VERSION_1_1 :: u32 where
  "VK_API_VERSION_1_1 = VK_MAKE_VERSION 1 1 0"

text \<open>The fields of \<^verbatim>\<open>VkApplicationInfo\<close> that main fills in (lines 27 to 33).\<close>
record VkApplicationInfo =
  pApplicationName :: string
  applicationVersion :: u32
  pEngineName :: string
  engineVersion :: u32
  apiVersion :: u32

text \<open>
  The fields of \<^verbatim>\<open>VkPhysicalDeviceProperties\<close> that main reads (lines 65 to 67).
  \<open>deviceName\<close> is the content of the \<^verbatim>\<open>char[256]\<close> array up to its terminating NUL, which
  is what \<^verbatim>\<open>%s\<close> prints.
\<close>
record VkPhysicalDeviceProperties =
  props_apiVersion :: u32
  driverVersion :: u32
  deviceID :: u32
  deviceName :: string

section \<open>printf conversions\<close>

definition digit_char :: "nat \<Rightarrow> char" where
  "digit_char n = ''0123456789abcdef'' ! n"

text \<open>\<^verbatim>\<open>%u\<close>: unsigned decimal, no padding.\<close>
fun fmt_u :: "nat \<Rightarrow> string" where
  "fmt_u n = (if n < 10 then [digit_char n] else fmt_u (n div 10) @ [digit_char (n mod 10)])"

declare fmt_u.simps [simp del]

text \<open>\<^verbatim>\<open>%d\<close>: signed decimal.\<close>
definition fmt_d :: "int \<Rightarrow> string" where
  "fmt_d i = (if i < 0 then CHR ''-'' # fmt_u (nat (- i)) else fmt_u (nat i))"

text \<open>\<^verbatim>\<open>%x\<close>: lower-case hexadecimal, no padding.\<close>
fun fmt_x :: "nat \<Rightarrow> string" where
  "fmt_x n = (if n < 16 then [digit_char n] else fmt_x (n div 16) @ [digit_char (n mod 16)])"

declare fmt_x.simps [simp del]

text \<open>\<^verbatim>\<open>%04x\<close>: hexadecimal, padded with zeros on the left to a width of at least 4.\<close>
definition fmt_04x :: "nat \<Rightarrow> string" where
  "fmt_04x n = replicate (4 - length (fmt_x n)) CHR ''0'' @ fmt_x n"

text \<open>
  \<^verbatim>\<open>snprintf(buf, size, ...)\<close> stores at most \<open>size - 1\<close> characters of the formatted text
  and a terminating NUL; the model keeps the characters before the NUL.
\<close>
definition snprintf :: "nat \<Rightarrow> string \<Rightarrow> string" where
  "snprintf size_of_buf formatted = take (size_of_buf - 1) formatted"

section \<open>The environment: the loader and the driver\<close>

text \<open>
  \<^verbatim>\<open>PFN_vkEnumerateInstanceVersion\<close>: the entry point takes the address of a 32-bit cell.
  The model passes the cell's content and gets back the status and the content the call
  leaves in the cell.
\<close>
type_synonym PFN_vkEnumerateInstanceVersion = "u32 \<Rightarrow> VkResult \<times> u32"

text \<open>
  One field per response of the Vulkan loader and driver that main can observe.
  \<^item> \<open>vkGetInstanceProcAddr\<close>: the lookup by name with a null instance; \<open>None\<close> is the null
    function pointer.
  \<^item> \<open>vkCreateInstance\<close>: the status and the handle stored through \<^verbatim>\<open>pInstance\<close>.
  \<^item> \<open>enumerate_count\<close>: \<^verbatim>\<open>vkEnumeratePhysicalDevices\<close> called with a null array: the status
    and the value stored through \<^verbatim>\<open>pPhysicalDeviceCount\<close>.
  \<^item> \<open>enumerate_fill\<close>: \<^verbatim>\<open>vkEnumeratePhysicalDevices\<close> called with an array and its capacity:
    the status and the handles the driver has to offer, in its order.
  \<^item> \<open>vkGetPhysicalDeviceProperties\<close>: the record stored through \<^verbatim>\<open>pProperties\<close>.
\<close>
record driver =
  vkGetInstanceProcAddr :: "string \<Rightarrow> PFN_vkEnumerateInstanceVersion option"
  vkCreateInstance :: "VkApplicationInfo \<Rightarrow> VkResult \<times> VkInstance"
  enumerate_count :: "VkInstance \<Rightarrow> VkResult \<times> u32"
  enumerate_fill :: "VkInstance \<Rightarrow> u32 \<Rightarrow> VkResult \<times> VkPhysicalDevice list"
  vkGetPhysicalDeviceProperties :: "VkPhysicalDevice \<Rightarrow> VkPhysicalDeviceProperties"

text \<open>
  Modelled from the spec: \<^verbatim>\<open>vkEnumeratePhysicalDevices(instance, &count, array)\<close> belongs
  to the Vulkan loader and is not under src/. It follows the two-call convention of the
  specification (section 4.1) and of the Vulkan API: with a null array it stores the number
  of devices in the count; with an array it writes at most as many handles as the count
  passed in (the array's capacity) and stores the number of handles written in the count,
  and the elements it does not write keep their content. Returns the status, the count
  and the array after the call.
\<close>
definition vkEnumeratePhysicalDevices ::
  "driver \<Rightarrow> VkInstance \<Rightarrow> u32 \<Rightarrow> VkPhysicalDevice list option
    \<Rightarrow> VkResult \<times> u32 \<times> VkPhysicalDevice list option" where
  "vkEnumeratePhysicalDevices d instance pPhysicalDeviceCount pPhysicalDevices =
     (case pPhysicalDevices of
        None \<Rightarrow> (let (r, n) = enumerate_count d instance in (r, n, None))
      | Some array \<Rightarrow>
          (let (r, handles) = enumerate_fill d instance pPhysicalDeviceCount;
               written = take (min (unat pPhysicalDeviceCount) (length array)) handles
           in (r, word_of_nat (length written),
               Some (written @ drop (length written) array))))"

section \<open>Program state\<close>

text \<open>
  What the program does that an observer can see, in order: the calls into Vulkan with
  their arguments and results, and the operations on the \<^verbatim>\<open>std::vector\<close> of device handles.
\<close>
datatype event =
    Call_vkGetInstanceProcAddr string
  | Call_vkEnumerateInstanceVersion
  | Call_vkCreateInstance VkApplicationInfo VkResult VkInstance
  | Call_vkEnumeratePhysicalDevices VkInstance "nat option"
  | Alloc_physical_devices nat
  | Read_physical_devices nat
  | Call_vkGetPhysicalDeviceProperties VkPhysicalDevice
  | Call_vkDestroyInstance VkInstance

text \<open>
  \<open>buf\<close> is the \<^verbatim>\<open>static char buf[64]\<close> of \<^verbatim>\<open>ApiVersionToStr\<close> (its content up to the NUL),
  shared by all calls. \<open>stdout\<close> and \<open>stderr\<close> hold the text each print call hands to the
  stream, in order; the stream is their concatenation.
\<close>
record state =
  buf :: string
  stdout :: "string list"
  stderr :: "string list"
  calls :: "event list"

definition init_state :: state where
  "init_state = \<lparr>buf = [], stdout = [], stderr = [], calls = []\<rparr>"

definition log_event :: "event \<Rightarrow> state \<Rightarrow> state" where
  "log_event e s = s\<lparr>calls := calls s @ [e]\<rparr>"

definition print_stdout :: "string \<Rightarrow> state \<Rightarrow> state" where
  "print_stdout text s = s\<lparr>stdout := stdout s @ [text]\<rparr>"

definition print_stderr :: "string \<Rightarrow> state \<Rightarrow> state" where
  "print_stderr text s = s\<lparr>stderr := stderr s @ [text]\<rparr>"

text \<open>
  A \<^verbatim>\<open>const char*\<close> passed to \<^verbatim>\<open>%s\<close>: the address of the static buffer of
  \<^verbatim>\<open>ApiVersionToStr\<close>, or other text. printf reads through the pointer when it runs.
\<close>
datatype char_ptr = Static_buf | Chars string

definition deref :: "state \<Rightarrow> char_ptr \<Rightarrow> string" where
  "deref s p = (case p of Static_buf \<Rightarrow> buf s | Chars text \<Rightarrow> text)"

section \<open>ApiVersionToStr (lines 6 to 11)\<close>

definition ApiVersionToStr :: "u32 \<Rightarrow> state \<Rightarrow> char_ptr \<times> state" where
  "ApiVersionToStr v s =
     (Static_buf,
      s\<lparr>buf := snprintf 64
          (fmt_u (unat (VK_VERSION_MAJOR v)) @ ''.'' @ fmt_u (unat (VK_VERSION_MINOR v)) @ ''.''
            @ fmt_u (unat (VK_VERSION_PATCH v)))\<rparr>)"

section \<open>The host\<close>

text \<open>
  Line 55 constructs a \<^verbatim>\<open>std::vector\<close> of as many handles as the driver counted. The
  constructor throws (\<^verbatim>\<open>std::length_error\<close>, \<^verbatim>\<open>std::bad_alloc\<close>) when the host cannot provide
  that many elements, and main catches nothing. \<open>can_allocate n\<close> says whether a vector of
  \<open>n\<close> handles can be constructed on the host the program runs on.
\<close>
record host =
  can_allocate :: "nat \<Rightarrow> bool"

section \<open>main (lines 13 to 73)\<close>

text \<open>
  The ways a run can end without returning from main:
  \<^item> \<open>Null_function_call\<close>: a call through a null function pointer;
  \<^item> \<open>Bad_alloc n\<close>: the constructor of the vector of \<open>n\<close> handles throws, the exception is
    not caught and the process is aborted;
  \<^item> \<open>Out_of_range i\<close>: \<^verbatim>\<open>physical_devices[i]\<close> with \<open>i\<close> not below the vector's size.
\<close>
datatype error = Null_function_call | Bad_alloc nat | Out_of_range nat

text \<open>A call through a function pointer of type \<^verbatim>\<open>PFN_vkEnumerateInstanceVersion\<close>.\<close>
definition call_PFN_vkEnumerateInstanceVersion ::
  "PFN_vkEnumerateInstanceVersion option \<Rightarrow> u32 \<Rightarrow> error + VkResult \<times> u32" where
  "call_PFN_vkEnumerateInstanceVersion fn cell =
     (case fn of None \<Rightarrow> Inl Null_function_call | Some f \<Rightarrow> Inr (f cell))"

text \<open>Lines 15 to 22: the loader's version, 1.0.0 unless the optional entry point exists.\<close>
definition query_loader_version :: "driver \<Rightarrow> state \<Rightarrow> (error + u32) \<times> state" where
  "query_loader_version d s =
     (let loader_version = VK_API_VERSION_1_0;
          enumerate_instance_version_fn = vkGetInstanceProcAddr d ''vkEnumerateInstanceVersion'';
          s1 = log_event (Call_vkGetInstanceProcAddr ''vkEnumerateInstanceVersion'') s
      in if enumerate_instance_version_fn \<noteq> None then
           (case call_PFN_vkEnumerateInstanceVersion enumerate_instance_version_fn loader_version of
              Inl e \<Rightarrow> (Inl e, s1)
            | Inr (unused, loader_version) \<Rightarrow>
                (Inr loader_version, log_event Call_vkEnumerateInstanceVersion s1))
         else (Inr loader_version, s1))"

text \<open>Lines 27 to 33.\<close>
definition app_info :: VkApplicationInfo where
  "app_info =
     \<lparr>pApplicationName = ''vk_sanity'', applicationVersion = VK_MAKE_VERSION 0 1 0,
      pEngineName = ''quickvulkanv1'', engineVersion = VK_MAKE_VERSION 0 1 0,
      apiVersion = VK_API_VERSION_1_1\<rparr>"

text \<open>Lines 65 to 67: the text of one device line, the version read through the pointer.\<close>
definition device_line :: "state \<Rightarrow> VkPhysicalDeviceProperties \<Rightarrow> char_ptr \<Rightarrow> string" where
  "device_line s device_props version =
     ''  - '' @ deviceName device_props @ '' | api '' @ deref s version @ '' | driver 0x''
       @ fmt_x (unat (driverVersion device_props)) @ '' | deviceID 0x''
       @ fmt_04x (unat (deviceID device_props)) @ ''\<newline>''"

text \<open>Lines 60 to 68: the loop, from index \<open>i\<close> on. \<open>None\<close>: the loop ran to its end.\<close>
function device_loop ::
  "driver \<Rightarrow> VkPhysicalDevice list \<Rightarrow> u32 \<Rightarrow> u32 \<Rightarrow> state \<Rightarrow> error option \<times> state" where
  "device_loop d physical_devices physical_device_count i s =
     (if i < physical_device_count then
        (if unat i < length physical_devices then
           (let dev = physical_devices ! unat i;
                s1 = log_event (Read_physical_devices (unat i)) s;
                device_props = vkGetPhysicalDeviceProperties d dev;
                s2 = log_event (Call_vkGetPhysicalDeviceProperties dev) s1;
                (version, s3) = ApiVersionToStr (props_apiVersion device_props) s2;
                s4 = print_stdout (device_line s3 device_props version) s3
            in device_loop d physical_devices physical_device_count (i + 1) s4)
         else (Some (Out_of_range (unat i)), s))
      else (None, s))"
  by pat_completeness auto

termination device_loop
proof (relation "measure (\<lambda>(d, physical_devices, physical_device_count, i, s).
                   unat physical_device_count - unat i)")
  show "wf (measure (\<lambda>(d, physical_devices, physical_device_count, i, s).
                   unat physical_device_count - unat i))"
    by simp
next
  fix d :: driver and physical_devices :: "VkPhysicalDevice list"
    and physical_device_count i :: u32 and s s4 :: state
  assume below: "i < physical_device_count"
  have "unat i < unat physical_device_count"
    using below by (simp add: word_less_nat_alt)
  moreover have "unat physical_device_count < 2 ^ 32"
    using unsigned_less [of physical_device_count] by simp
  ultimately have "unat i + unat (1::u32) < 2 ^ LENGTH(32)"
    by simp
  then have "unat (i + 1) = unat i + unat (1::u32)"
    by (simp only: unat_add_lem)
  with \<open>unat i < unat physical_device_count\<close>
  show "((d, physical_devices, physical_device_count, i + 1, s4),
         (d, physical_devices, physical_device_count, i, s))
        \<in> measure (\<lambda>(d, physical_devices, physical_device_count, i, s).
                   unat physical_device_count - unat i)"
    by simp
qed

declare device_loop.simps [simp del]

text \<open>
  The whole program on a host and a driver, started in the initial state. The result is
  the exit code, or the error that ended the run without a return from main, and the
  state at that moment: the texts handed to the two streams and the calls made.
\<close>
definition main :: "host \<Rightarrow> driver \<Rightarrow> (error + int) \<times> state" where
  "main h d =
     (case query_loader_version d init_state of
        (Inl e, s1) \<Rightarrow> (Inl e, s1)
      | (Inr loader_version, s1) \<Rightarrow>
     (let (version, s2) = ApiVersionToStr loader_version s1;
          s3 = print_stdout
                 (''[vk] Loader supports: Vulkan '' @ deref s2 version @ ''\<newline>'') s2;
          instance = VK_NULL_HANDLE;
          (vk_result, instance) = vkCreateInstance d app_info;
          s4 = log_event (Call_vkCreateInstance app_info vk_result instance) s3
      in if vk_result \<noteq> VK_SUCCESS then
           (Inr 1,
            print_stderr
              (''[vk] vkCreateInstance failed: '' @ fmt_d (sint vk_result) @ ''\<newline>'') s4)
         else
           (let physical_device_count = 0;
                (vk_result, physical_device_count, unused) =
                  vkEnumeratePhysicalDevices d instance physical_device_count None;
                s5 = log_event (Call_vkEnumeratePhysicalDevices instance None) s4
            in if vk_result \<noteq> VK_SUCCESS \<or> physical_device_count = 0 then
                 (let s6 = print_stderr
                             (''[vk] No physical devices found (res='' @ fmt_d (sint vk_result)
                               @ '', count='' @ fmt_u (unat physical_device_count)
                               @ '')\<newline>'') s5;
                      s7 = log_event (Call_vkDestroyInstance instance) s6
                  in (Inr 1, s7))
               else if \<not> can_allocate h (unat physical_device_count) then
                 (Inl (Bad_alloc (unat physical_device_count)), s5)
               else
                 (let physical_devices = replicate (unat physical_device_count) VK_NULL_HANDLE;
                      s6 = log_event (Alloc_physical_devices (unat physical_device_count)) s5;
                      (discarded, physical_device_count, filled) =
                        vkEnumeratePhysicalDevices d instance physical_device_count
                          (Some physical_devices);
                      physical_devices =
                        (case filled of Some array \<Rightarrow> array | None \<Rightarrow> physical_devices);
                      s7 = log_event
                             (Call_vkEnumeratePhysicalDevices instance
                                (Some (length physical_devices))) s6;
                      s8 = print_stdout
                             (''[vk] Found '' @ fmt_u (unat physical_device_count)
                               @ '' physical device(s)\<newline>'') s7
                  in case device_loop d physical_devices physical_device_count 0 s8 of
                       (Some e, s9) \<Rightarrow> (Inl e, s9)
                     | (None, s9) \<Rightarrow>
                         (let s10 = log_event (Call_vkDestroyInstance instance) s9;
                              s11 = print_stdout ''[vk] Sanity OK.\<newline>'' s10
                          in (Inr 0, s11))))))"

section \<open>Observations of a run\<close>

text \<open>The text \<^verbatim>\<open>%u.%u.%u\<close> of a packed version, before it is stored in the buffer.\<close>
definition version_text :: "u32 \<Rightarrow> string" where
  "version_text v =
     fmt_u (unat (VK_VERSION_MAJOR v)) @ ''.'' @ fmt_u (unat (VK_VERSION_MINOR v)) @ ''.''
       @ fmt_u (unat (VK_VERSION_PATCH v))"

text \<open>The device line of a properties record when the version shown is the record's own.\<close>
definition device_line_text :: "VkPhysicalDeviceProperties \<Rightarrow> string" where
  "device_line_text p =
     ''  - '' @ deviceName p @ '' | api '' @ version_text (props_apiVersion p) @ '' | driver 0x''
       @ fmt_x (unat (driverVersion p)) @ '' | deviceID 0x'' @ fmt_04x (unat (deviceID p))
       @ ''\<newline>''"

text \<open>What one loop iteration adds to the trace.\<close>
definition device_events :: "VkPhysicalDevice list \<Rightarrow> nat \<Rightarrow> event list" where
  "device_events devs k =
     [Read_physical_devices k, Call_vkGetPhysicalDeviceProperties (devs ! k)]"

text \<open>The driver's responses as main meets them.\<close>
definition loader_version :: "driver \<Rightarrow> u32" where
  "loader_version d =
     (case fst (query_loader_version d init_state) of
        Inl e \<Rightarrow> VK_API_VERSION_1_0 | Inr v \<Rightarrow> v)"

definition startup_state :: "driver \<Rightarrow> state" where
  "startup_state d = snd (query_loader_version d init_state)"

definition startup_calls :: "driver \<Rightarrow> event list" where
  "startup_calls d = calls (snd (query_loader_version d init_state))"

definition create_status :: "driver \<Rightarrow> VkResult" where
  "create_status d = fst (vkCreateInstance d app_info)"

definition created_instance :: "driver \<Rightarrow> VkInstance" where
  "created_instance d = snd (vkCreateInstance d app_info)"

definition count_status :: "driver \<Rightarrow> VkResult" where
  "count_status d = fst (enumerate_count d (created_instance d))"

definition device_count :: "driver \<Rightarrow> u32" where
  "device_count d = snd (enumerate_count d (created_instance d))"

text \<open>The handles the second enumeration call writes into the array.\<close>
definition listed_devices :: "driver \<Rightarrow> VkPhysicalDevice list" where
  "listed_devices d =
     take (unat (device_count d))
       (snd (enumerate_fill d (created_instance d) (device_count d)))"

definition banner_text :: "driver \<Rightarrow> string" where
  "banner_text d =
     ''[vk] Loader supports: Vulkan '' @ version_text (loader_version d) @ ''\<newline>''"

definition create_failed_text :: "VkResult \<Rightarrow> string" where
  "create_failed_text r = ''[vk] vkCreateInstance failed: '' @ fmt_d (sint r) @ ''\<newline>''"

definition no_devices_text :: "VkResult \<Rightarrow> u32 \<Rightarrow> string" where
  "no_devices_text r n =
     ''[vk] No physical devices found (res='' @ fmt_d (sint r) @ '', count='' @ fmt_u (unat n)
       @ '')\<newline>''"

definition found_text :: "nat \<Rightarrow> string" where
  "found_text n = ''[vk] Found '' @ fmt_u n @ '' physical device(s)\<newline>''"

text \<open>The exit code of a run that returns from main; \<open>None\<close> for a run that does not.\<close>
definition exit_code :: "host \<Rightarrow> driver \<Rightarrow> int option" where
  "exit_code h d = (case fst (main h d) of Inl e \<Rightarrow> None | Inr code \<Rightarrow> Some code)"

text \<open>A text that starts with the list marker of the device lines.\<close>
definition is_device_line :: "string \<Rightarrow> bool" where
  "is_device_line l = (take 4 l = ''  - '')"

text \<open>
  The texts printed by the printf of line 65, one per call, in order: the texts handed to
  standard output that start with the list marker. A text is what one call prints; it is
  one line of the stream only if the device name holds no newline.
\<close>
definition device_listing :: "state \<Rightarrow> string list" where
  "device_listing s = filter is_device_line (stdout s)"

text \<open>
  The lines of a stream: the text is cut at every newline, the newline left out; text
  after the last newline is a line of its own.
\<close>
fun split_lines :: "string \<Rightarrow> string list" where
  "split_lines [] = []"
| "split_lines (c # cs) =
     (if c = CHR ''\<newline>'' then [] # split_lines cs
      else (case split_lines cs of [] \<Rightarrow> [[c]] | l # ls \<Rightarrow> (c # l) # ls))"

text \<open>The lines of standard output, and those of them that start with the list marker.\<close>
definition stdout_lines :: "state \<Rightarrow> string list" where
  "stdout_lines s = split_lines (concat (stdout s))"

definition device_lines :: "state \<Rightarrow> string list" where
  "device_lines s = filter is_device_line (stdout_lines s)"

definition newline_free :: "string \<Rightarrow> bool" where
  "newline_free t = (CHR ''\<newline>'' \<notin> set t)"

text \<open>A device line without its newline.\<close>
definition device_line_body :: "VkPhysicalDeviceProperties \<Rightarrow> string" where
  "device_line_body p =
     ''  - '' @ deviceName p @ '' | api '' @ version_text (props_apiVersion p) @ '' | driver 0x''
       @ fmt_x (unat (driverVersion p)) @ '' | deviceID 0x'' @ fmt_04x (unat (deviceID p))"

text \<open>The digits of the deviceID field of a line of the stream: the text after the last
  \<^verbatim>\<open>x\<close>.\<close>
definition deviceID_field :: "string \<Rightarrow> string" where
  "deviceID_field l = rev (takeWhile (\<lambda>c. c \<noteq> CHR ''x'') (rev l))"

text \<open>
  A loader within the program's stated support (line 14, "if 1.1+ loader"): its version
  query, when it exists, reports at least 1.0.0 for the variable initialised to 1.0.0.
\<close>
definition supported_loader :: "driver \<Rightarrow> bool" where
  "supported_loader d =
     (case vkGetInstanceProcAddr d ''vkEnumerateInstanceVersion'' of
        None \<Rightarrow> True
      | Some f \<Rightarrow> VK_API_VERSION_1_0 \<le> snd (f VK_API_VERSION_1_0))"

fun is_create :: "event \<Rightarrow> bool" where
  "is_create (Call_vkCreateInstance info r inst) = True"
| "is_create e = False"

fun is_destroy :: "event \<Rightarrow> bool" where
  "is_destroy (Call_vkDestroyInstance inst) = True"
| "is_destroy e = False"

fun is_enumerate :: "event \<Rightarrow> bool" where
  "is_enumerate (Call_vkEnumeratePhysicalDevices inst array) = True"
| "is_enumerate e = False"

text \<open>The events that allocate, fill or read the vector of device handles.\<close>
fun touches_vector :: "event \<Rightarrow> bool" where
  "touches_vector (Alloc_physical_devices n) = True"
| "touches_vector (Read_physical_devices i) = True"
| "touches_vector (Call_vkEnumeratePhysicalDevices inst (Some n)) = True"
| "touches_vector e = False"

text \<open>
  The life cycle of the context as the specification draws it: three states, creation
  leads from \<open>Uninitialized\<close> to \<open>ContextLive\<close> (or stays on failure), destruction from
  \<open>ContextLive\<close> to \<open>Terminated\<close>, and calls that take the context or one of its devices
  are allowed in \<open>ContextLive\<close> only. \<open>None\<close> is a trace the state machine refuses.
\<close>
datatype context_state = Uninitialized | ContextLive | Terminated

fun context_step :: "context_state \<Rightarrow> event \<Rightarrow> context_state option" where
  "context_step c (Call_vkCreateInstance info r inst) =
     (if c = Uninitialized then Some (if r = VK_SUCCESS then ContextLive else Uninitialized)
      else None)"
| "context_step c (Call_vkDestroyInstance inst) =
     (if c = ContextLive then Some Terminated else None)"
| "context_step c (Call_vkEnumeratePhysicalDevices inst array) =
     (if c = ContextLive then Some c else None)"
| "context_step c (Call_vkGetPhysicalDeviceProperties dev) =
     (if c = ContextLive then Some c else None)"
| "context_step c e = Some c"

fun context_run :: "context_state \<Rightarrow> event list \<Rightarrow> context_state option" where
  "context_run c [] = Some c"
| "context_run c (e # es) =
     (case context_step c e of None \<Rightarrow> None | Some c' \<Rightarrow> context_run c' es)"

section \<open>Sample hosts and drivers\<close>

text \<open>A host on which a vector of up to \<open>limit\<close> handles can be constructed.\<close>
definition sample_host :: "nat \<Rightarrow> host" where
  "sample_host limit = \<lparr>can_allocate = (\<lambda>n. n \<le> limit)\<rparr>"

definition sample_properties :: "VkPhysicalDevice \<Rightarrow> VkPhysicalDeviceProperties" where
  "sample_properties h =
     (if h = 0xA then
        \<lparr>props_apiVersion = VK_MAKE_VERSION 1 3 250, driverVersion = 0x801F, deviceID = 0x1C82,
         deviceName = ''Alpha''\<rparr>
      else if h = 0xC then
        \<lparr>props_apiVersion = VK_MAKE_VERSION 1 0 0, driverVersion = 2, deviceID = 0x3,
         deviceName = ''Gamma\<newline>  - Delta''\<rparr>
      else
        \<lparr>props_apiVersion = VK_MAKE_VERSION 1 1 0, driverVersion = 1, deviceID = 0x12345,
         deviceName = ''Beta''\<rparr>)"

text \<open>
  A driver from the entry point the loader resolves (if any), the status of instance
  creation, the response to the counting call and the response to the filling call.
\<close>
definition sample_driver ::
  "PFN_vkEnumerateInstanceVersion option \<Rightarrow> VkResult \<Rightarrow> VkResult \<times> u32
    \<Rightarrow> VkResult \<times> VkPhysicalDevice list \<Rightarrow> driver" where
  "sample_driver entry_point created counted filled =
     \<lparr>vkGetInstanceProcAddr =
        (\<lambda>name. if name = ''vkEnumerateInstanceVersion'' then entry_point else None),
      vkCreateInstance = (\<lambda>info. (created, 0x1000)),
      enumerate_count = (\<lambda>inst. counted),
      enumerate_fill = (\<lambda>inst capacity. filled),
      vkGetPhysicalDeviceProperties = sample_properties\<rparr>"

section \<open>Formatting lemmas\<close>

lemma fmt_u_length: "0 < k \<Longrightarrow> n < 10 ^ k \<Longrightarrow> length (fmt_u n) \<le> k"
proof (induction n arbitrary: k rule: fmt_u.induct)
  case (1 n)
  show ?case
  proof (cases "n < 10")
    case True
    with "1.prems" show ?thesis by (simp add: fmt_u.simps [of n])
  next
    case False
    with "1.prems" have k: "1 < k" 
      by (cases "k = 1") auto
    then obtain j where j: "k = Suc j" "0 < j" by (cases k) auto
    with "1.prems" have "n div 10 < 10 ^ j" by (simp add: less_mult_imp_div_less mult.commute)
    with "1.IH" [OF False \<open>0 < j\<close>] have "length (fmt_u (n div 10)) \<le> j" by simp
    with False j show ?thesis by (simp add: fmt_u.simps [of n])
  qed
qed

lemma unat_major_less: "unat (VK_VERSION_MAJOR v) < 10 ^ 4"
proof -
  have "unat (drop_bit 22 v) = drop_bit 22 (unat v)" by (rule unat_drop_bit_eq)
  then have "unat (drop_bit 22 v) = unat v div 2 ^ 22" by (simp only: drop_bit_eq_div)
  moreover have "unat v < 2 ^ 32" using unsigned_less [of v] by simp
  ultimately show ?thesis by (simp add: VK_VERSION_MAJOR_def)
qed

lemma unat_minor_less: "unat (VK_VERSION_MINOR v) < 10 ^ 4"
proof -
  have "drop_bit 12 v AND 0x3FF \<le> (0x3FF :: u32)" by (rule word_and_le1)
  then have "unat (drop_bit 12 v AND 0x3FF) \<le> unat (0x3FF :: u32)" by (simp add: word_le_nat_alt)
  then show ?thesis by (simp add: VK_VERSION_MINOR_def)
qed

lemma unat_patch_less: "unat (VK_VERSION_PATCH v) < 10 ^ 4"
proof -
  have "v AND 0xFFF \<le> (0xFFF :: u32)" by (rule word_and_le1)
  then have "unat (v AND 0xFFF) \<le> unat (0xFFF :: u32)" by (simp add: word_le_nat_alt)
  then show ?thesis by (simp add: VK_VERSION_PATCH_def)
qed

lemma version_text_length: "length (version_text v) \<le> 14"
  using fmt_u_length [OF _ unat_major_less [of v]] fmt_u_length [OF _ unat_minor_less [of v]]
    fmt_u_length [OF _ unat_patch_less [of v]]
  by (simp add: version_text_def)

lemma ApiVersionToStr_eq: "ApiVersionToStr v s = (Static_buf, s\<lparr>buf := version_text v\<rparr>)"
  using version_text_length [of v]
  by (simp add: ApiVersionToStr_def snprintf_def version_text_def)

section \<open>The loop\<close>

lemma unat_succ_below: "(i::u32) < n \<Longrightarrow> unat (i + 1) = Suc (unat i)"
proof -
  assume "i < n"
  then have "unat i < unat n" by (simp add: word_less_nat_alt)
  moreover have "unat n < 2 ^ 32" using unsigned_less [of n] by simp
  ultimately have "unat i + unat (1::u32) < 2 ^ LENGTH(32)" by simp
  then have "unat (i + 1) = unat i + unat (1::u32)" by (simp only: unat_add_lem)
  then show ?thesis by simp
qed

lemma device_loop_step:
  assumes "i < n" "unat i < length devs"
  shows "\<exists>s1. device_loop d devs n i s = device_loop d devs n (i + 1) s1 \<and>
           stdout s1 = stdout s @ [device_line_text (vkGetPhysicalDeviceProperties d (devs ! unat i))] \<and>
           stderr s1 = stderr s \<and>
           calls s1 = calls s @ device_events devs (unat i)"
proof -
  let ?p = "vkGetPhysicalDeviceProperties d (devs ! unat i)"
  let ?s2 = "log_event (Call_vkGetPhysicalDeviceProperties (devs ! unat i))
               (log_event (Read_physical_devices (unat i)) s)"
  let ?s4 = "print_stdout (device_line_text ?p) (?s2\<lparr>buf := version_text (props_apiVersion ?p)\<rparr>)"
  have "device_loop d devs n i s = device_loop d devs n (i + 1) ?s4"
    using assms
    by (subst device_loop.simps)
       (simp add: Let_def ApiVersionToStr_eq device_line_def device_line_text_def deref_def)
  moreover have "stdout ?s4 = stdout s @ [device_line_text ?p]"
    by (simp add: print_stdout_def log_event_def)
  moreover have "stderr ?s4 = stderr s"
    by (simp add: print_stdout_def log_event_def)
  moreover have "calls ?s4 = calls s @ device_events devs (unat i)"
    by (simp add: print_stdout_def log_event_def device_events_def)
  ultimately show ?thesis by blast
qed

lemma device_loop_run:
  assumes "unat n \<le> length devs"
  shows "unat i \<le> unat n \<Longrightarrow>
         \<exists>s'. device_loop d devs n i s = (None, s') \<and>
           stdout s' = stdout s @ map (device_line_text \<circ> vkGetPhysicalDeviceProperties d)
                                      (drop (unat i) (take (unat n) devs)) \<and>
           stderr s' = stderr s \<and>
           calls s' = calls s @ concat (map (device_events devs) [unat i ..< unat n])"
proof (induction "unat n - unat i" arbitrary: i s)
  case 0
  then have "\<not> i < n" by (simp add: word_less_nat_alt)
  then have "device_loop d devs n i s = (None, s)" by (subst device_loop.simps) simp
  moreover from 0 have "unat i = unat n" by simp
  ultimately show ?case by simp
next
  case (Suc m)
  then have lt: "i < n" by (simp add: word_less_nat_alt)
  then have ui: "unat i < unat n" by (simp add: word_less_nat_alt)
  with assms have inb: "unat i < length devs" by simp
  have nxt: "unat (i + 1) = Suc (unat i)" using lt by (rule unat_succ_below)
  obtain s1 where s1: "device_loop d devs n i s = device_loop d devs n (i + 1) s1"
      "stdout s1 = stdout s @ [device_line_text (vkGetPhysicalDeviceProperties d (devs ! unat i))]"
      "stderr s1 = stderr s"
      "calls s1 = calls s @ device_events devs (unat i)"
    using device_loop_step [OF lt inb] by blast
  have "m = unat n - unat (i + 1)" using Suc.hyps(2) nxt by simp
  moreover have "unat (i + 1) \<le> unat n" using ui nxt by simp
  ultimately obtain s' where s': "device_loop d devs n (i + 1) s1 = (None, s')"
      "stdout s' = stdout s1 @ map (device_line_text \<circ> vkGetPhysicalDeviceProperties d)
                                      (drop (unat (i + 1)) (take (unat n) devs))"
      "stderr s' = stderr s1"
      "calls s' = calls s1 @ concat (map (device_events devs) [unat (i + 1) ..< unat n])"
    using Suc.hyps(1) [of "i + 1" s1] by blast
  have d1: "drop (unat i) (take (unat n) devs) = devs ! unat i # drop (Suc (unat i)) (take (unat n) devs)"
    using ui inb by (simp add: Cons_nth_drop_Suc [symmetric])
  have u1: "[unat i ..< unat n] = unat i # [Suc (unat i) ..< unat n]"
    using ui by (simp add: upt_conv_Cons)
  show ?case
    using s' s1 by (simp add: nxt d1 u1)
qed

section \<open>The ways through main\<close>

text \<open>The null check of line 20 keeps the call of line 21 from a null pointer.\<close>
lemma query_loader_version_eq:
  "query_loader_version d s =
     (Inr (case vkGetInstanceProcAddr d ''vkEnumerateInstanceVersion'' of
             None \<Rightarrow> VK_API_VERSION_1_0 | Some f \<Rightarrow> snd (f VK_API_VERSION_1_0)),
      case vkGetInstanceProcAddr d ''vkEnumerateInstanceVersion'' of
        None \<Rightarrow> log_event (Call_vkGetInstanceProcAddr ''vkEnumerateInstanceVersion'') s
      | Some f \<Rightarrow> log_event Call_vkEnumerateInstanceVersion
                   (log_event (Call_vkGetInstanceProcAddr ''vkEnumerateInstanceVersion'') s))"
  by (simp add: query_loader_version_def call_PFN_vkEnumerateInstanceVersion_def Let_def
        split_def split: option.splits)

lemma query_loader_version_run:
  "query_loader_version d init_state = (Inr (loader_version d), startup_state d)"
  by (simp add: loader_version_def startup_state_def query_loader_version_eq)

lemma startup_state_frame:
  "buf (startup_state d) = []" "stdout (startup_state d) = []" "stderr (startup_state d) = []"
  "calls (startup_state d) = startup_calls d"
  by (simp_all add: startup_state_def startup_calls_def query_loader_version_eq log_event_def
        init_state_def split: option.splits)

lemmas observation_defs =
  create_status_def created_instance_def count_status_def
  device_count_def banner_text_def

lemma main_create_failed:
  assumes "create_status d \<noteq> VK_SUCCESS"
  shows "\<exists>s. main h d = (Inr 1, s) \<and> stdout s = [banner_text d] \<and>
           stderr s = [create_failed_text (create_status d)] \<and>
           calls s = startup_calls d @
             [Call_vkCreateInstance app_info (create_status d) (created_instance d)]"
proof -
  let ?s1 = "startup_state d"
  let ?s4 = "log_event (Call_vkCreateInstance app_info (create_status d) (created_instance d))
               (print_stdout (banner_text d) (?s1\<lparr>buf := version_text (loader_version d)\<rparr>))"
  let ?s = "print_stderr (create_failed_text (create_status d)) ?s4"
  have "main h d = (Inr 1, ?s)"
    using assms
    by (simp add: main_def query_loader_version_run Let_def split_def ApiVersionToStr_eq
          deref_def observation_defs create_failed_text_def)
  moreover have "stdout ?s = [banner_text d]" "stderr ?s = [create_failed_text (create_status d)]"
    by (simp_all add: log_event_def print_stdout_def print_stderr_def startup_state_frame)
  moreover have "calls ?s = startup_calls d @
             [Call_vkCreateInstance app_info (create_status d) (created_instance d)]"
    by (simp add: log_event_def print_stdout_def print_stderr_def startup_state_frame)
  ultimately show ?thesis by blast
qed

lemma main_enumeration_failed:
  assumes "create_status d = VK_SUCCESS" "count_status d \<noteq> VK_SUCCESS \<or> device_count d = 0"
  shows "\<exists>s. main h d = (Inr 1, s) \<and> stdout s = [banner_text d] \<and>
           stderr s = [no_devices_text (count_status d) (device_count d)] \<and>
           calls s = startup_calls d @
             [Call_vkCreateInstance app_info VK_SUCCESS (created_instance d),
              Call_vkEnumeratePhysicalDevices (created_instance d) None,
              Call_vkDestroyInstance (created_instance d)]"
proof -
  let ?s1 = "startup_state d"
  let ?s4 = "log_event (Call_vkCreateInstance app_info (create_status d) (created_instance d))
               (print_stdout (banner_text d) (?s1\<lparr>buf := version_text (loader_version d)\<rparr>))"
  let ?s = "log_event (Call_vkDestroyInstance (created_instance d))
              (print_stderr (no_devices_text (count_status d) (device_count d))
                 (log_event (Call_vkEnumeratePhysicalDevices (created_instance d) None) ?s4))"
  have "main h d = (Inr 1, ?s)"
    using assms
    by (auto simp add: main_def query_loader_version_run Let_def split_def ApiVersionToStr_eq
          deref_def observation_defs no_devices_text_def vkEnumeratePhysicalDevices_def)
  moreover have "stdout ?s = [banner_text d]"
    "stderr ?s = [no_devices_text (count_status d) (device_count d)]"
    by (simp_all add: log_event_def print_stdout_def print_stderr_def startup_state_frame)
  moreover have "calls ?s = startup_calls d @
             [Call_vkCreateInstance app_info VK_SUCCESS (created_instance d),
              Call_vkEnumeratePhysicalDevices (created_instance d) None,
              Call_vkDestroyInstance (created_instance d)]"
    using assms(1)
    by (simp add: log_event_def print_stdout_def print_stderr_def startup_state_frame)
  ultimately show ?thesis by blast
qed

text \<open>The run that the vector's constructor ends: creation and counting done, nothing after.\<close>
lemma main_alloc_failed:
  assumes "create_status d = VK_SUCCESS" "count_status d = VK_SUCCESS" "device_count d \<noteq> 0"
    and "\<not> can_allocate h (unat (device_count d))"
  shows "\<exists>s. main h d = (Inl (Bad_alloc (unat (device_count d))), s) \<and>
           stdout s = [banner_text d] \<and> stderr s = [] \<and>
           calls s = startup_calls d @
             [Call_vkCreateInstance app_info VK_SUCCESS (created_instance d),
              Call_vkEnumeratePhysicalDevices (created_instance d) None]"
proof -
  let ?s1 = "startup_state d"
  let ?s4 = "log_event (Call_vkCreateInstance app_info (create_status d) (created_instance d))
               (print_stdout (banner_text d) (?s1\<lparr>buf := version_text (loader_version d)\<rparr>))"
  let ?s = "log_event (Call_vkEnumeratePhysicalDevices (created_instance d) None) ?s4"
  have "main h d = (Inl (Bad_alloc (unat (device_count d))), ?s)"
    using assms
    by (simp add: main_def query_loader_version_run Let_def split_def ApiVersionToStr_eq
          deref_def observation_defs vkEnumeratePhysicalDevices_def)
  moreover have "stdout ?s = [banner_text d]" "stderr ?s = []"
    by (simp_all add: log_event_def print_stdout_def startup_state_frame)
  moreover have "calls ?s = startup_calls d @
             [Call_vkCreateInstance app_info VK_SUCCESS (created_instance d),
              Call_vkEnumeratePhysicalDevices (created_instance d) None]"
    using assms(1)
    by (simp add: log_event_def print_stdout_def startup_state_frame)
  ultimately show ?thesis by blast
qed

lemma main_listed:
  assumes "create_status d = VK_SUCCESS" "count_status d = VK_SUCCESS" "device_count d \<noteq> 0"
    and "can_allocate h (unat (device_count d))"
  shows "\<exists>s. main h d = (Inr 0, s) \<and>
           stdout s = [banner_text d, found_text (length (listed_devices d))]
             @ map (device_line_text \<circ> vkGetPhysicalDeviceProperties d) (listed_devices d)
             @ [''[vk] Sanity OK.\<newline>''] \<and>
           stderr s = [] \<and>
           calls s = startup_calls d @
             [Call_vkCreateInstance app_info VK_SUCCESS (created_instance d),
              Call_vkEnumeratePhysicalDevices (created_instance d) None,
              Alloc_physical_devices (unat (device_count d)),
              Call_vkEnumeratePhysicalDevices (created_instance d) (Some (unat (device_count d)))]
             @ concat (map (device_events (listed_devices d)) [0 ..< length (listed_devices d)])
             @ [Call_vkDestroyInstance (created_instance d)]"
proof -
  let ?s1 = "startup_state d"
  let ?inst = "created_instance d"
  let ?n = "device_count d"
  let ?devs = "listed_devices d"
  let ?arr = "?devs @ drop (length ?devs) (replicate (unat ?n) VK_NULL_HANDLE)"
  let ?n' = "word_of_nat (length ?devs) :: u32"
  let ?s4 = "log_event (Call_vkCreateInstance app_info (create_status d) ?inst)
               (print_stdout (banner_text d) (?s1\<lparr>buf := version_text (loader_version d)\<rparr>))"
  let ?s8 = "print_stdout (found_text (length ?devs))
               (log_event (Call_vkEnumeratePhysicalDevices ?inst (Some (unat ?n)))
                  (log_event (Alloc_physical_devices (unat ?n))
                     (log_event (Call_vkEnumeratePhysicalDevices ?inst None) ?s4)))"
  have len: "length ?devs \<le> unat ?n"
    by (simp add: listed_devices_def)
  have n': "unat ?n' = length ?devs"
    using len by (rule le_unat_uoi)
  have arr_len: "length ?arr = unat ?n"
    using len by simp
  obtain s9 where s9: "device_loop d ?arr ?n' 0 ?s8 = (None, s9)"
      "stdout s9 = stdout ?s8 @ map (device_line_text \<circ> vkGetPhysicalDeviceProperties d)
                                      (drop (unat (0::u32)) (take (unat ?n') ?arr))"
      "stderr s9 = stderr ?s8"
      "calls s9 = calls ?s8 @ concat (map (device_events ?arr) [unat (0::u32) ..< unat ?n'])"
    using device_loop_run [of ?n' ?arr 0 d ?s8] len n' by auto
  let ?s = "print_stdout ''[vk] Sanity OK.\<newline>'' (log_event (Call_vkDestroyInstance ?inst) s9)"
  have fill: "vkEnumeratePhysicalDevices d ?inst ?n (Some (replicate (unat ?n) VK_NULL_HANDLE)) =
              (fst (enumerate_fill d ?inst ?n), ?n', Some ?arr)"
    by (simp add: vkEnumeratePhysicalDevices_def split_def Let_def listed_devices_def)
  have cnt: "vkEnumeratePhysicalDevices d ?inst 0 None = (VK_SUCCESS, ?n, None)"
    using assms(2) by (simp add: vkEnumeratePhysicalDevices_def split_def count_status_def device_count_def)
  have "main h d = (Inr 0, ?s)"
    using assms(1,3,4) s9(1) arr_len n'
    by (simp add: main_def query_loader_version_run Let_def split_def ApiVersionToStr_eq deref_def
          create_status_def banner_text_def found_text_def
          cnt fill created_instance_def [symmetric])
  moreover have "stdout ?s = [banner_text d, found_text (length ?devs)]
             @ map (device_line_text \<circ> vkGetPhysicalDeviceProperties d) ?devs
             @ [''[vk] Sanity OK.\<newline>'']"
    using s9(2) n'
    by (simp add: log_event_def print_stdout_def startup_state_frame)
  moreover have "stderr ?s = []"
    using s9(3)
    by (simp add: log_event_def print_stdout_def startup_state_frame)
  moreover
  have ev: "map (device_events ?arr) [0 ..< length ?devs] =
            map (device_events ?devs) [0 ..< length ?devs]"
    by (rule map_cong) (simp_all add: device_events_def nth_append)
  have c9: "calls s9 = calls ?s8 @ concat (map (device_events ?devs) [0 ..< length ?devs])"
    using s9(4) by (simp only: n' unsigned_0 ev)
  have "calls ?s = startup_calls d @
             [Call_vkCreateInstance app_info VK_SUCCESS ?inst,
              Call_vkEnumeratePhysicalDevices ?inst None,
              Alloc_physical_devices (unat ?n),
              Call_vkEnumeratePhysicalDevices ?inst (Some (unat ?n))]
             @ concat (map (device_events ?devs) [0 ..< length ?devs])
             @ [Call_vkDestroyInstance ?inst]"
    using assms(1)
    by (simp add: c9 log_event_def print_stdout_def startup_state_frame)
  ultimately show ?thesis by blast
qed

section \<open>Facts about traces\<close>

lemma startup_calls_cases:
  "startup_calls d = [Call_vkGetInstanceProcAddr ''vkEnumerateInstanceVersion''] \<or>
   startup_calls d = [Call_vkGetInstanceProcAddr ''vkEnumerateInstanceVersion'',
                      Call_vkEnumerateInstanceVersion]"
  by (simp add: startup_calls_def query_loader_version_eq log_event_def init_state_def
        split: option.splits)

lemma startup_calls_filter:
  "filter is_create (startup_calls d) = []" "filter is_destroy (startup_calls d) = []"
  "filter is_enumerate (startup_calls d) = []" "filter touches_vector (startup_calls d) = []"
  using startup_calls_cases [of d] by auto

lemma startup_calls_context: "context_run c (startup_calls d @ es) = context_run c es"
  using startup_calls_cases [of d] by auto

lemma device_events_filter:
  "filter is_create (concat (map (device_events devs) ks)) = []"
  "filter is_destroy (concat (map (device_events devs) ks)) = []"
  by (induction ks) (simp_all add: device_events_def)

lemma device_events_context:
  "context_run ContextLive (concat (map (device_events devs) ks) @ es) =
   context_run ContextLive es"
  by (induction ks) (simp_all add: device_events_def)

lemma main_cases:
  obtains (create_failed) "create_status d \<noteq> VK_SUCCESS"
  | (enumeration_failed) "create_status d = VK_SUCCESS"
      "count_status d \<noteq> VK_SUCCESS \<or> device_count d = 0"
  | (alloc_failed) "create_status d = VK_SUCCESS" "count_status d = VK_SUCCESS"
      "device_count d \<noteq> 0" "\<not> can_allocate h (unat (device_count d))"
  | (listed) "create_status d = VK_SUCCESS" "count_status d = VK_SUCCESS"
      "device_count d \<noteq> 0" "can_allocate h (unat (device_count d))"
  by blast

text \<open>
  A run ends with an exit code or with the vector's constructor throwing: main never calls
  through a null pointer and never reads the vector out of range.
\<close>
lemma main_outcome:
  "fst (main h d) = Inr 0 \<or> fst (main h d) = Inr 1 \<or>
   fst (main h d) = Inl (Bad_alloc (unat (device_count d)))"
proof (cases rule: main_cases [where d = d and h = h])
  case create_failed
  then show ?thesis using main_create_failed [of d h] by auto
next
  case enumeration_failed
  then show ?thesis using main_enumeration_failed [of d h] by auto
next
  case alloc_failed
  then show ?thesis using main_alloc_failed [of d h] by auto
next
  case listed
  then show ?thesis using main_listed [of d h] by auto
qed

lemma sample_driver_responses:
  "create_status (sample_driver f r c l) = r"
  "created_instance (sample_driver f r c l) = 0x1000"
  "count_status (sample_driver f r c l) = fst c"
  "device_count (sample_driver f r c l) = snd c"
  "listed_devices (sample_driver f r c l) = take (unat (snd c)) (snd l)"
  "vkGetPhysicalDeviceProperties (sample_driver f r c l) = sample_properties"
  by (simp_all add: create_status_def created_instance_def count_status_def device_count_def
        listed_devices_def sample_driver_def)

lemma is_device_line_texts:
  "is_device_line (device_line_text p)" "\<not> is_device_line (banner_text d)"
  "\<not> is_device_line (found_text n)" "\<not> is_device_line ''[vk] Sanity OK.\<newline>''"
  by (simp_all add: is_device_line_def device_line_text_def banner_text_def found_text_def)

lemma filter_device_lines:
  "filter is_device_line (map (device_line_text \<circ> f) xs) = map (device_line_text \<circ> f) xs"
  by (induction xs) (simp_all add: is_device_line_texts)

lemma device_loop_driver_cong:
  assumes "vkGetPhysicalDeviceProperties d' = vkGetPhysicalDeviceProperties d"
  shows "device_loop d' devs n i s = device_loop d devs n i s"
proof (induction "unat n - unat i" arbitrary: i s)
  case 0
  then have "\<not> i < n" by (simp add: word_less_nat_alt)
  then show ?case
    by (simp add: device_loop.simps [of d' devs n i s] device_loop.simps [of d devs n i s])
next
  case (Suc m)
  then have lt: "i < n" by (simp add: word_less_nat_alt)
  have nxt: "unat (i + 1) = Suc (unat i)" using lt by (rule unat_succ_below)
  have m: "m = unat n - unat (i + 1)" using Suc.hyps(2) nxt by simp
  show ?case
    by (simp add: device_loop.simps [of d' devs n i s] device_loop.simps [of d devs n i s]
          Let_def split_def assms Suc.hyps(1) [OF m])
qed

lemma exit_code_value:
  "exit_code h d =
     (if create_status d = VK_SUCCESS \<and> count_status d = VK_SUCCESS \<and> device_count d \<noteq> 0
      then (if can_allocate h (unat (device_count d)) then Some 0 else None)
      else Some 1)"
proof (cases rule: main_cases [where d = d and h = h])
  case create_failed
  then show ?thesis using main_create_failed [of d h] by (auto simp add: exit_code_def)
next
  case enumeration_failed
  then show ?thesis using main_enumeration_failed [of d h] by (auto simp add: exit_code_def)
next
  case alloc_failed
  then show ?thesis using main_alloc_failed [of d h] by (auto simp add: exit_code_def)
next
  case listed
  then show ?thesis using main_listed [of d h] by (auto simp add: exit_code_def)
qed

section \<open>Evaluating the conversions on numerals\<close>

lemma fmt_u_small: "n < 10 \<Longrightarrow> fmt_u n = [digit_char n]"
  by (simp add: fmt_u.simps [of n])

lemma fmt_u_large: "\<not> n < 10 \<Longrightarrow> fmt_u n = fmt_u (n div 10) @ [digit_char (n mod 10)]"
  by (simp add: fmt_u.simps [of n])

lemma fmt_x_small: "n < 16 \<Longrightarrow> fmt_x n = [digit_char n]"
  by (simp add: fmt_x.simps [of n])

lemma fmt_x_large: "\<not> n < 16 \<Longrightarrow> fmt_x n = fmt_x (n div 16) @ [digit_char (n mod 16)]"
  by (simp add: fmt_x.simps [of n])

lemma replicate_pos: "0 < n \<Longrightarrow> replicate n x = x # replicate (n - 1) x"
  by (cases n) simp_all

lemmas fmt_eval = fmt_u_small fmt_u_large fmt_x_small fmt_x_large fmt_04x_def fmt_d_def
  digit_char_def replicate_pos

lemmas version_defs = version_text_def VK_MAKE_VERSION_def VK_VERSION_MAJOR_def
  VK_VERSION_MINOR_def VK_VERSION_PATCH_def VK_API_VERSION_1_0_def

lemma sample_lines:
  "device_line_text (sample_properties 0xA) =
     ''  - Alpha | api 1.3.250 | driver 0x801f | deviceID 0x1c82\<newline>''"
  "device_line_text (sample_properties 0xB) =
     ''  - Beta | api 1.1.0 | driver 0x1 | deviceID 0x12345\<newline>''"
  by (simp_all add: device_line_text_def sample_properties_def version_defs fmt_eval)

lemma sample_loader_version:
  "loader_version (sample_driver None r c l) = VK_API_VERSION_1_0"
  "loader_version (sample_driver (Some f) r c l) = snd (f VK_API_VERSION_1_0)"
  by (simp_all add: loader_version_def query_loader_version_eq sample_driver_def)

lemma baseline_text: "version_text VK_API_VERSION_1_0 = ''1.0.0''"
  by (simp add: version_defs fmt_eval)

section \<open>The width of the hexadecimal fields\<close>

lemma fmt_x_length_le: "0 < k \<Longrightarrow> n < 16 ^ k \<Longrightarrow> length (fmt_x n) \<le> k"
proof (induction n arbitrary: k rule: fmt_x.induct)
  case (1 n)
  show ?case
  proof (cases "n < 16")
    case True
    with "1.prems" show ?thesis by (simp add: fmt_x.simps [of n])
  next
    case False
    with "1.prems" have k: "1 < k"
      by (cases "k = 1") auto
    then obtain j where j: "k = Suc j" "0 < j" by (cases k) auto
    with "1.prems" have "n div 16 < 16 ^ j" by (simp add: less_mult_imp_div_less mult.commute)
    with "1.IH" [OF False \<open>0 < j\<close>] have "length (fmt_x (n div 16)) \<le> j" by simp
    with False j show ?thesis by (simp add: fmt_x.simps [of n])
  qed
qed

lemma fmt_x_length_gt: "16 ^ k \<le> n \<Longrightarrow> k < length (fmt_x n)"
proof (induction n arbitrary: k rule: fmt_x.induct)
  case (1 n)
  show ?case
  proof (cases "n < 16")
    case True
    with "1.prems" have "(16::nat) ^ k < 16 ^ 1" by simp
    then have "k < 1" by (simp only: power_strict_increasing_iff) 
    with True show ?thesis by (simp add: fmt_x.simps [of n])
  next
    case False
    show ?thesis
    proof (cases k)
      case 0
      with False show ?thesis by (simp add: fmt_x.simps [of n])
    next
      case (Suc j)
      with "1.prems" have "16 ^ j \<le> n div 16"
        by (simp add: less_eq_div_iff_mult_less_eq mult.commute)
      with "1.IH" [OF False] have "j < length (fmt_x (n div 16))" by simp
      with False Suc show ?thesis by (simp add: fmt_x.simps [of n])
    qed
  qed
qed

lemma fmt_04x_length: "4 \<le> length (fmt_04x n)" "length (fmt_04x n) = 4 \<longleftrightarrow> n < 65536"
proof -
  show "4 \<le> length (fmt_04x n)"
    by (simp add: fmt_04x_def)
  show "length (fmt_04x n) = 4 \<longleftrightarrow> n < 65536"
  proof (cases "n < 65536")
    case True
    then have "length (fmt_x n) \<le> 4"
      using fmt_x_length_le [of 4 n] by simp
    with True show ?thesis by (simp add: fmt_04x_def)
  next
    case False
    then have "4 < length (fmt_x n)"
      using fmt_x_length_gt [of 4 n] by simp
    with False show ?thesis by (simp add: fmt_04x_def)
  qed
qed

lemma digit_char_hex: "n < 16 \<Longrightarrow> digit_char n \<in> set ''0123456789abcdef''"
  unfolding digit_char_def by (rule nth_mem) simp

lemma fmt_x_digits: "set (fmt_x n) \<subseteq> set ''0123456789abcdef''"
proof (induction n rule: fmt_x.induct)
  case (1 n)
  show ?case
  proof (cases "n < 16")
    case True
    then show ?thesis
      using digit_char_hex [of n] by (simp add: fmt_x.simps [of n])
  next
    case False
    with "1.IH" have "set (fmt_x (n div 16)) \<subseteq> set ''0123456789abcdef''" by simp
    moreover have "digit_char (n mod 16) \<in> set ''0123456789abcdef''"
      by (rule digit_char_hex) simp
    ultimately show ?thesis
      using False by (simp add: fmt_x.simps [of n])
  qed
qed

lemma fmt_04x_no_x: "c \<in> set (fmt_04x n) \<Longrightarrow> c \<noteq> CHR ''x''"
  using fmt_x_digits [of n] by (auto simp add: fmt_04x_def)

lemma deviceID_field_line: "deviceID_field (device_line_body p) = fmt_04x (unat (deviceID p))"
proof -
  have "takeWhile (\<lambda>c. c \<noteq> CHR ''x'') (rev (fmt_04x (unat (deviceID p))) @ CHR ''x'' # rest)
        = rev (fmt_04x (unat (deviceID p))) @ takeWhile (\<lambda>c. c \<noteq> CHR ''x'') (CHR ''x'' # rest)"
    for rest
    by (rule takeWhile_append2) (simp add: fmt_04x_no_x)
  then show ?thesis
    by (simp add: deviceID_field_def device_line_body_def)
qed

lemma listing_of_run:
  assumes "stdout s = [banner_text d, found_text n] @ map (device_line_text \<circ> f) xs
             @ [''[vk] Sanity OK.\<newline>'']"
  shows "device_listing s = map (device_line_text \<circ> f) xs"
  by (simp add: device_listing_def assms is_device_line_texts filter_device_lines)

section \<open>The lines of standard output\<close>

lemma device_line_text_body: "device_line_text p = device_line_body p @ ''\<newline>''"
  by (simp add: device_line_text_def device_line_body_def)

lemma split_lines_line:
  "newline_free t \<Longrightarrow> split_lines (t @ CHR ''\<newline>'' # rest) = t # split_lines rest"
  by (induction t) (auto simp add: newline_free_def)

lemma split_lines_texts:
  "\<forall>b \<in> set bodies. newline_free b \<Longrightarrow>
   split_lines (concat (map (\<lambda>b. b @ ''\<newline>'') bodies)) = bodies"
  by (induction bodies) (simp_all add: split_lines_line)

lemma fmt_u_digits: "set (fmt_u n) \<subseteq> set ''0123456789abcdef''"
proof (induction n rule: fmt_u.induct)
  case (1 n)
  show ?case
  proof (cases "n < 10")
    case True
    then show ?thesis
      using digit_char_hex [of n] by (simp add: fmt_u.simps [of n])
  next
    case False
    with "1.IH" have "set (fmt_u (n div 10)) \<subseteq> set ''0123456789abcdef''" by simp
    moreover have "digit_char (n mod 10) \<in> set ''0123456789abcdef''"
      by (rule digit_char_hex) simp
    ultimately show ?thesis
      using False by (simp add: fmt_u.simps [of n])
  qed
qed

lemma newline_free_simps [simp]:
  "newline_free []"
  "newline_free (c # cs) \<longleftrightarrow> c \<noteq> CHR ''\<newline>'' \<and> newline_free cs"
  "newline_free (a @ b) \<longleftrightarrow> newline_free a \<and> newline_free b"
  by (auto simp add: newline_free_def)

lemma newline_free_fmt: "newline_free (fmt_u n)" "newline_free (fmt_x n)" "newline_free (fmt_04x n)"
  using fmt_u_digits [of n] fmt_x_digits [of n]
  by (auto simp add: newline_free_def fmt_04x_def)

lemma newline_free_version: "newline_free (version_text v)"
  by (simp add: version_text_def newline_free_fmt)

lemma newline_free_body:
  "newline_free (device_line_body p) \<longleftrightarrow> newline_free (deviceName p)"
  by (simp add: device_line_body_def newline_free_fmt newline_free_version)

text \<open>The lines of the stream of a run that lists devices whose names hold no newline.\<close>
lemma lines_of_run:
  assumes "stdout s = [banner_text d, found_text n] @ map (device_line_text \<circ> f) xs
             @ [''[vk] Sanity OK.\<newline>'']"
    and "\<forall>x \<in> set xs. newline_free (deviceName (f x))"
  shows "device_lines s = map (device_line_body \<circ> f) xs"
proof -
  let ?banner = "''[vk] Loader supports: Vulkan '' @ version_text (loader_version d)"
  let ?found = "''[vk] Found '' @ fmt_u n @ '' physical device(s)''"
  let ?bodies = "[?banner, ?found] @ map (device_line_body \<circ> f) xs @ [''[vk] Sanity OK.'']"
  have texts: "stdout s = map (\<lambda>b. b @ ''\<newline>'') ?bodies"
    by (simp add: assms(1) banner_text_def found_text_def device_line_text_body)
  have "newline_free ?banner" "newline_free ?found" "newline_free ''[vk] Sanity OK.''"
    by (simp_all add: newline_free_version newline_free_fmt)
  moreover have "\<forall>b \<in> set (map (device_line_body \<circ> f) xs). newline_free b"
    using assms(2) by (simp add: newline_free_body)
  ultimately have "\<forall>b \<in> set ?bodies. newline_free b"
    by simp
  then have "stdout_lines s = ?bodies"
    unfolding stdout_lines_def texts by (rule split_lines_texts)
  moreover have "filter is_device_line (map (device_line_body \<circ> f) xs)
                 = map (device_line_body \<circ> f) xs"
    by (induction xs) (simp_all add: is_device_line_def device_line_body_def)
  ultimately show ?thesis
    by (simp add: device_lines_def is_device_line_def)
qed

lemma listing_by_outcome:
  "device_listing (snd (main h d)) =
     (if exit_code h d = Some 0
      then map (device_line_text \<circ> vkGetPhysicalDeviceProperties d) (listed_devices d) else [])"
proof (cases rule: main_cases [where d = d and h = h])
  case create_failed
  then obtain s where "main h d = (Inr 1, s)" "stdout s = [banner_text d]"
    using main_create_failed [of d h] by blast
  then show ?thesis
    by (simp add: exit_code_def device_listing_def is_device_line_texts)
next
  case enumeration_failed
  then obtain s where "main h d = (Inr 1, s)" "stdout s = [banner_text d]"
    using main_enumeration_failed [of d h] by blast
  then show ?thesis
    by (simp add: exit_code_def device_listing_def is_device_line_texts)
next
  case alloc_failed
  then obtain s where "main h d = (Inl (Bad_alloc (unat (device_count d))), s)"
      "stdout s = [banner_text d]"
    using main_alloc_failed [of d h] by blast
  then show ?thesis
    by (simp add: exit_code_def device_listing_def is_device_line_texts)
next
  case listed
  then obtain s where s: "main h d = (Inr 0, s)"
      "stdout s = [banner_text d, found_text (length (listed_devices d))]
             @ map (device_line_text \<circ> vkGetPhysicalDeviceProperties d) (listed_devices d)
             @ [''[vk] Sanity OK.\<newline>'']"
    using main_listed [of d h] by blast
  then show ?thesis
    using listing_of_run [OF s(2)] by (simp add: exit_code_def)
qed

lemma sample_host_allocates: "can_allocate (sample_host limit) n \<longleftrightarrow> n \<le> limit"
  by (simp add: sample_host_def)

lemma trace_by_outcome:
  "calls (snd (main h d)) =
     startup_calls d @
     (if create_status d \<noteq> VK_SUCCESS then
        [Call_vkCreateInstance app_info (create_status d) (created_instance d)]
      else if count_status d \<noteq> VK_SUCCESS \<or> device_count d = 0 then
        [Call_vkCreateInstance app_info VK_SUCCESS (created_instance d),
         Call_vkEnumeratePhysicalDevices (created_instance d) None,
         Call_vkDestroyInstance (created_instance d)]
      else if \<not> can_allocate h (unat (device_count d)) then
        [Call_vkCreateInstance app_info VK_SUCCESS (created_instance d),
         Call_vkEnumeratePhysicalDevices (created_instance d) None]
      else
        [Call_vkCreateInstance app_info VK_SUCCESS (created_instance d),
         Call_vkEnumeratePhysicalDevices (created_instance d) None,
         Alloc_physical_devices (unat (device_count d)),
         Call_vkEnumeratePhysicalDevices (created_instance d) (Some (unat (device_count d)))]
        @ concat (map (device_events (listed_devices d)) [0 ..< length (listed_devices d)])
        @ [Call_vkDestroyInstance (created_instance d)])"
proof (cases rule: main_cases [where d = d and h = h])
  case create_failed
  then show ?thesis using main_create_failed [of d h] by auto
next
  case enumeration_failed
  then show ?thesis using main_enumeration_failed [of d h] by auto
next
  case alloc_failed
  then show ?thesis using main_alloc_failed [of d h] by auto
next
  case listed
  then show ?thesis using main_listed [of d h] by auto
qed

lemma baseline_major: "VK_API_VERSION_1_0 \<le> v \<Longrightarrow> 1 \<le> VK_VERSION_MAJOR v"
proof -
  assume "VK_API_VERSION_1_0 \<le> v"
  then have "unat VK_API_VERSION_1_0 \<le> unat v"
    by (simp add: word_le_nat_alt)
  then have "2 ^ 22 \<le> unat v"
    by (simp add: VK_API_VERSION_1_0_def VK_MAKE_VERSION_def)
  then have "1 \<le> unat v div 2 ^ 22"
    by (simp add: less_eq_div_iff_mult_less_eq)
  moreover have "unat (drop_bit 22 v) = drop_bit 22 (unat v)"
    by (rule unat_drop_bit_eq)
  then have "unat (drop_bit 22 v) = unat v div 2 ^ 22"
    by (simp only: drop_bit_eq_div)
  ultimately have "unat (1 :: u32) \<le> unat (VK_VERSION_MAJOR v)"
    by (simp add: VK_VERSION_MAJOR_def)
  then show ?thesis
    by (simp only: word_le_nat_alt)
qed

lemma stdout_listed:
  assumes "create_status d = VK_SUCCESS" "count_status d = VK_SUCCESS" "device_count d \<noteq> 0"
    and "can_allocate h (unat (device_count d))"
  shows "stdout (snd (main h d)) = [banner_text d, found_text (length (listed_devices d))]
             @ map (device_line_text \<circ> vkGetPhysicalDeviceProperties d) (listed_devices d)
             @ [''[vk] Sanity OK.\<newline>'']"
  using main_listed [OF assms] by auto

lemma sample_bodies:
  "device_line_body (sample_properties 0xA) =
     ''  - Alpha | api 1.3.250 | driver 0x801f | deviceID 0x1c82''"
  "device_line_body (sample_properties 0xB) =
     ''  - Beta | api 1.1.0 | driver 0x1 | deviceID 0x12345''"
  by (simp_all add: device_line_body_def sample_properties_def version_defs fmt_eval)

lemma sample_names:
  "newline_free (deviceName (sample_properties 0xA))"
  "newline_free (deviceName (sample_properties 0xB))"
  by (simp_all add: sample_properties_def)

lemma sample_gamma_text:
  "device_line_text (sample_properties 0xC) =
     ''  - Gamma\<newline>  - Delta | api 1.0.0 | driver 0x2 | deviceID 0x0003\<newline>''"
  by (simp add: device_line_text_def sample_properties_def version_defs fmt_eval)

lemma sample_banner: "banner_text (sample_driver None r c l) =
    ''[vk] Loader supports: Vulkan 1.0.0\<newline>''"
  by (simp add: banner_text_def sample_loader_version baseline_text)

lemma found_texts:
  "found_text 0 = ''[vk] Found 0 physical device(s)\<newline>''"
  "found_text (Suc 0) = ''[vk] Found 1 physical device(s)\<newline>''"
  "found_text (Suc (Suc 0)) = ''[vk] Found 2 physical device(s)\<newline>''"
  by (simp_all add: found_text_def fmt_eval)

lemma gamma_lines:
  "device_lines (snd (main (sample_host 1000) (sample_driver None 0 (0, 1) (0, [0xC])))) =
     [''  - Gamma'', ''  - Delta | api 1.0.0 | driver 0x2 | deviceID 0x0003'']"
proof -
  let ?h = "sample_host 1000"
  let ?d = "sample_driver None 0 (0, 1) (0, [0xC])"
  have "stdout (snd (main ?h ?d)) = [banner_text ?d, found_text (length (listed_devices ?d))]
             @ map (device_line_text \<circ> vkGetPhysicalDeviceProperties ?d) (listed_devices ?d)
             @ [''[vk] Sanity OK.\<newline>'']"
    by (rule stdout_listed)
       (simp_all add: sample_driver_responses VK_SUCCESS_def sample_host_allocates)
  then have "stdout (snd (main ?h ?d)) =
      [''[vk] Loader supports: Vulkan 1.0.0\<newline>'',
       ''[vk] Found 1 physical device(s)\<newline>'',
       ''  - Gamma\<newline>  - Delta | api 1.0.0 | driver 0x2 | deviceID 0x0003\<newline>'',
       ''[vk] Sanity OK.\<newline>'']"
    by (simp add: sample_driver_responses sample_banner found_texts sample_gamma_text)
  then show ?thesis
    by (simp add: device_lines_def stdout_lines_def is_device_line_def)
qed

lemma lines_listed:
  assumes "create_status d = VK_SUCCESS" "count_status d = VK_SUCCESS" "device_count d \<noteq> 0"
    and "can_allocate h (unat (device_count d))"
    and "\<forall>dev \<in> set (listed_devices d).
           newline_free (deviceName (vkGetPhysicalDeviceProperties d dev))"
  shows "device_lines (snd (main h d)) =
           map (device_line_body \<circ> vkGetPhysicalDeviceProperties d) (listed_devices d)"
  using lines_of_run [OF stdout_listed [OF assms(1-4)] assms(5)] .

lemma main_driver_cong:
  assumes "vkGetInstanceProcAddr d' = vkGetInstanceProcAddr d"
    and "vkCreateInstance d' = vkCreateInstance d"
    and "enumerate_count d' = enumerate_count d"
    and "\<And>inst capacity. snd (enumerate_fill d' inst capacity) = snd (enumerate_fill d inst capacity)"
    and "vkGetPhysicalDeviceProperties d' = vkGetPhysicalDeviceProperties d"
  shows "main h d' = main h d"
proof -
  have "device_loop d' = device_loop d"
    by (intro ext device_loop_driver_cong assms(5))
  then show ?thesis
    by (simp add: main_def query_loader_version_eq vkEnumeratePhysicalDevices_def split_def
          Let_def assms cong: option.case_cong)
qed

section \<open>The claims\<close>

text \<open>
  Claim C1, as stated, fails in two ways. Creation and the counting enumeration call can
  succeed with a count above zero and the run still not end with code 0: when the vector
  of that many handles cannot be allocated at line 55, the exception is not caught and the
  process is aborted. And the run can end with code 0 with no device listed: the status of
  the filling call is never looked at, so a filling call that fails and writes no handle
  leads to "Found 0" and exit code 0.
\<close>
theorem exit_code_counterexample:
  "create_status (sample_driver None 0 (0, 0xFFFFFFFF) (0, [0xA])) = VK_SUCCESS \<and>
   count_status (sample_driver None 0 (0, 0xFFFFFFFF) (0, [0xA])) = VK_SUCCESS \<and>
   device_count (sample_driver None 0 (0, 0xFFFFFFFF) (0, [0xA])) \<noteq> 0 \<and>
   fst (main (sample_host 1000) (sample_driver None 0 (0, 0xFFFFFFFF) (0, [0xA])))
     = Inl (Bad_alloc 4294967295) \<and>
   exit_code (sample_host 1000) (sample_driver None 0 (0, 0xFFFFFFFF) (0, [0xA])) \<noteq> Some 0 \<and>
   fst (enumerate_fill (sample_driver None 0 (0, 2) (- 1, [])) 0x1000 2) \<noteq> VK_SUCCESS \<and>
   exit_code (sample_host 1000) (sample_driver None 0 (0, 2) (- 1, [])) = Some 0 \<and>
   device_listing (snd (main (sample_host 1000) (sample_driver None 0 (0, 2) (- 1, [])))) = []"
proof -
  let ?h = "sample_host 1000"
  let ?a = "sample_driver None 0 (0, 0xFFFFFFFF) (0, [0xA])"
  let ?b = "sample_driver None 0 (0, 2) (- 1, [])"
  have a: "create_status ?a = VK_SUCCESS" "count_status ?a = VK_SUCCESS" "device_count ?a \<noteq> 0"
    "\<not> can_allocate ?h (unat (device_count ?a))" "unat (device_count ?a) = 4294967295"
    by (simp_all add: sample_driver_responses VK_SUCCESS_def sample_host_allocates)
  from main_alloc_failed [OF a(1-4)] a(5)
  have "fst (main ?h ?a) = Inl (Bad_alloc 4294967295)"
    by auto
  moreover from this have "exit_code ?h ?a \<noteq> Some 0"
    by (simp add: exit_code_def)
  moreover have "fst (enumerate_fill ?b 0x1000 2) \<noteq> VK_SUCCESS"
    by (simp add: sample_driver_def VK_SUCCESS_def)
  moreover have "exit_code ?h ?b = Some 0"
    by (simp add: exit_code_value sample_driver_responses VK_SUCCESS_def sample_host_allocates)
  moreover from this have "device_listing (snd (main ?h ?b)) = []"
    by (simp add: listing_by_outcome sample_driver_responses)
  ultimately show ?thesis
    using a(1-3) by blast
qed

text \<open>
  Claim C1, amended. The exit code is 0 exactly when context creation succeeded, the
  counting enumeration call returned success with a count other than zero and the vector
  of that many handles could be allocated; the devices then listed are those the filling
  call wrote, whatever its status, possibly none. The exit code is 1 exactly when context
  creation failed, or the counting call returned another status or a count of zero. In the
  remaining case, the allocation failing, the run ends without an exit code of its own.
\<close>
theorem exit_code_cases:
  "(exit_code h d = Some 0 \<longleftrightarrow>
      create_status d = VK_SUCCESS \<and> count_status d = VK_SUCCESS \<and> device_count d \<noteq> 0 \<and>
      can_allocate h (unat (device_count d))) \<and>
   (exit_code h d = Some 1 \<longleftrightarrow>
      create_status d \<noteq> VK_SUCCESS \<or> count_status d \<noteq> VK_SUCCESS \<or> device_count d = 0) \<and>
   (exit_code h d = None \<longleftrightarrow>
      create_status d = VK_SUCCESS \<and> count_status d = VK_SUCCESS \<and> device_count d \<noteq> 0 \<and>
      \<not> can_allocate h (unat (device_count d))) \<and>
   (exit_code h d = Some 0 \<longrightarrow>
      device_listing (snd (main h d)) =
        map (device_line_text \<circ> vkGetPhysicalDeviceProperties d) (listed_devices d))"
proof (cases rule: main_cases [where d = d and h = h])
  case create_failed
  then obtain s where "main h d = (Inr 1, s)"
    using main_create_failed [of d h] by blast
  with create_failed show ?thesis
    by (simp add: exit_code_def)
next
  case enumeration_failed
  then obtain s where "main h d = (Inr 1, s)"
    using main_enumeration_failed [of d h] by blast
  with enumeration_failed show ?thesis
    by (auto simp add: exit_code_def)
next
  case alloc_failed
  then obtain s where "main h d = (Inl (Bad_alloc (unat (device_count d))), s)"
    using main_alloc_failed [of d h] by blast
  with alloc_failed show ?thesis
    by (simp add: exit_code_def)
next
  case listed
  then obtain s where s: "main h d = (Inr 0, s)"
      "stdout s = [banner_text d, found_text (length (listed_devices d))]
             @ map (device_line_text \<circ> vkGetPhysicalDeviceProperties d) (listed_devices d)
             @ [''[vk] Sanity OK.\<newline>'']"
    using main_listed [of d h] by blast
  with listed show ?thesis
    using listing_of_run [OF s(2)] by (simp add: exit_code_def)
qed

theorem exit_code_cases_witness:
  "exit_code (sample_host 1000) (sample_driver None 0 (0, 2) (0, [0xA, 0xB])) = Some 0 \<and>
   device_listing (snd (main (sample_host 1000) (sample_driver None 0 (0, 2) (0, [0xA, 0xB])))) =
     [''  - Alpha | api 1.3.250 | driver 0x801f | deviceID 0x1c82\<newline>'',
      ''  - Beta | api 1.1.0 | driver 0x1 | deviceID 0x12345\<newline>''] \<and>
   exit_code (sample_host 1000) (sample_driver None (- 3) (0, 2) (0, [0xA, 0xB])) = Some 1 \<and>
   exit_code (sample_host 1000) (sample_driver None 0 (- 4, 2) (0, [])) = Some 1 \<and>
   exit_code (sample_host 1000) (sample_driver None 0 (0, 0) (0, [])) = Some 1 \<and>
   exit_code (sample_host 1000) (sample_driver None 0 (0, 0xFFFFFFFF) (0, [0xA])) = None"
  using exit_code_cases [of "sample_host 1000" "sample_driver None 0 (0, 2) (0, [0xA, 0xB])"]
    exit_code_cases [of "sample_host 1000" "sample_driver None (- 3) (0, 2) (0, [0xA, 0xB])"]
    exit_code_cases [of "sample_host 1000" "sample_driver None 0 (- 4, 2) (0, [])"]
    exit_code_cases [of "sample_host 1000" "sample_driver None 0 (0, 0) (0, [])"]
    exit_code_cases [of "sample_host 1000" "sample_driver None 0 (0, 0xFFFFFFFF) (0, [0xA])"]
  by (simp add: sample_driver_responses VK_SUCCESS_def sample_host_allocates sample_lines)

text \<open>
  Claim C2, as stated, fails on one path: when the vector cannot be allocated at line 55
  the run ends after a successful creation without any call of \<^verbatim>\<open>vkDestroyInstance\<close>.
\<close>
theorem context_not_destroyed_counterexample:
  "fst (main (sample_host 1000) (sample_driver None 0 (0, 0xFFFFFFFF) (0, [0xA])))
     = Inl (Bad_alloc 4294967295) \<and>
   filter is_create
     (calls (snd (main (sample_host 1000) (sample_driver None 0 (0, 0xFFFFFFFF) (0, [0xA])))))
     = [Call_vkCreateInstance app_info VK_SUCCESS 0x1000] \<and>
   filter is_destroy
     (calls (snd (main (sample_host 1000) (sample_driver None 0 (0, 0xFFFFFFFF) (0, [0xA])))))
     = []"
proof -
  let ?h = "sample_host 1000"
  let ?a = "sample_driver None 0 (0, 0xFFFFFFFF) (0, [0xA])"
  have a: "create_status ?a = VK_SUCCESS" "count_status ?a = VK_SUCCESS" "device_count ?a \<noteq> 0"
    "\<not> can_allocate ?h (unat (device_count ?a))" "unat (device_count ?a) = 4294967295"
    by (simp_all add: sample_driver_responses VK_SUCCESS_def sample_host_allocates)
  from main_alloc_failed [OF a(1-4)] a(5)
  have "fst (main ?h ?a) = Inl (Bad_alloc 4294967295)"
    by auto
  moreover have "filter is_create (calls (snd (main ?h ?a)))
                 = [Call_vkCreateInstance app_info VK_SUCCESS 0x1000]"
    "filter is_destroy (calls (snd (main ?h ?a))) = []"
    using a(1-4)
    by (simp_all add: trace_by_outcome startup_calls_filter sample_driver_responses)
  ultimately show ?thesis by blast
qed

text \<open>
  Claim C2, amended. On every run the creation call is made once and never again. On
  every run that returns from main after a successful creation, the success path and the
  enumeration-failure path alike, the context is destroyed exactly once, by the last call
  of the run; after a failed creation there is no destruction. The one run that does not
  return from main, the allocation of line 55 failing, ends with the context created and
  not destroyed. The trace follows the life cycle of the specification and ends in
  \<open>Terminated\<close>, in \<open>Uninitialized\<close> when creation failed, and in \<open>ContextLive\<close> on the
  aborted run.
\<close>
theorem context_created_once_destroyed_once:
  "filter is_create (calls (snd (main h d))) =
     [Call_vkCreateInstance app_info (create_status d) (created_instance d)] \<and>
   filter is_destroy (calls (snd (main h d))) =
     (if create_status d = VK_SUCCESS \<and> exit_code h d \<noteq> None
      then [Call_vkDestroyInstance (created_instance d)] else []) \<and>
   (create_status d = VK_SUCCESS \<and> exit_code h d \<noteq> None \<longrightarrow>
      last (calls (snd (main h d))) = Call_vkDestroyInstance (created_instance d)) \<and>
   context_run Uninitialized (calls (snd (main h d))) =
     Some (if create_status d \<noteq> VK_SUCCESS then Uninitialized
           else if exit_code h d = None then ContextLive else Terminated) \<and>
   (exit_code h d = None \<longleftrightarrow>
      create_status d = VK_SUCCESS \<and> count_status d = VK_SUCCESS \<and> device_count d \<noteq> 0 \<and>
      \<not> can_allocate h (unat (device_count d)))"
proof (cases rule: main_cases [where d = d and h = h])
  case create_failed
  then show ?thesis
    by (simp add: trace_by_outcome exit_code_value startup_calls_filter startup_calls_context)
next
  case enumeration_failed
  then show ?thesis
    by (auto simp add: trace_by_outcome exit_code_value startup_calls_filter
          startup_calls_context)
next
  case alloc_failed
  then show ?thesis
    by (simp add: trace_by_outcome exit_code_value startup_calls_filter startup_calls_context)
next
  case listed
  then show ?thesis
    by (simp add: trace_by_outcome exit_code_value startup_calls_filter startup_calls_context
          device_events_filter device_events_context)
qed

theorem context_created_once_destroyed_once_witness:
  "filter is_create
     (calls (snd (main (sample_host 1000) (sample_driver None 0 (0, 2) (0, [0xA, 0xB])))))
     = [Call_vkCreateInstance app_info 0 0x1000] \<and>
   filter is_destroy
     (calls (snd (main (sample_host 1000) (sample_driver None 0 (0, 2) (0, [0xA, 0xB])))))
     = [Call_vkDestroyInstance 0x1000] \<and>
   last (calls (snd (main (sample_host 1000) (sample_driver None 0 (0, 2) (0, [0xA, 0xB])))))
     = Call_vkDestroyInstance 0x1000 \<and>
   context_run Uninitialized
     (calls (snd (main (sample_host 1000) (sample_driver None 0 (0, 2) (0, [0xA, 0xB])))))
     = Some Terminated \<and>
   filter is_destroy
     (calls (snd (main (sample_host 1000) (sample_driver None 0 (0, 0) (0, [])))))
     = [Call_vkDestroyInstance 0x1000] \<and>
   filter is_destroy
     (calls (snd (main (sample_host 1000) (sample_driver None (- 3) (0, 2) (0, [0xA, 0xB])))))
     = [] \<and>
   context_run Uninitialized
     (calls (snd (main (sample_host 1000) (sample_driver None (- 3) (0, 2) (0, [0xA, 0xB])))))
     = Some Uninitialized \<and>
   context_run Uninitialized
     (calls (snd (main (sample_host 1000) (sample_driver None 0 (0, 0xFFFFFFFF) (0, [0xA])))))
     = Some ContextLive"
proof -
  let ?h = "sample_host 1000"
  have codes: "exit_code ?h (sample_driver None 0 (0, 2) (0, [0xA, 0xB])) = Some 0"
    "exit_code ?h (sample_driver None 0 (0, 0) (0, [])) = Some 1"
    "exit_code ?h (sample_driver None 0 (0, 0xFFFFFFFF) (0, [0xA])) = None"
    by (simp_all add: exit_code_value sample_driver_responses VK_SUCCESS_def
          sample_host_allocates)
  show ?thesis
    using context_created_once_destroyed_once [of ?h "sample_driver None 0 (0, 2) (0, [0xA, 0xB])"]
      context_created_once_destroyed_once [of ?h "sample_driver None 0 (0, 0) (0, [])"]
      context_created_once_destroyed_once [of ?h "sample_driver None (- 3) (0, 2) (0, [0xA, 0xB])"]
      context_created_once_destroyed_once [of ?h "sample_driver None 0 (0, 0xFFFFFFFF) (0, [0xA])"]
    by (simp add: codes sample_driver_responses VK_SUCCESS_def)
qed

text \<open>
  Claim C3. If the counting enumeration call returns success with a count of 0, the
  program exits with code 1, the text on standard error shows the count 0, and the
  context is destroyed once, as the last call before exit.
\<close>
theorem zero_devices_exit:
  assumes "create_status d = VK_SUCCESS" "count_status d = VK_SUCCESS" "device_count d = 0"
  shows "\<exists>s. main h d = (Inr 1, s) \<and>
           stderr s = [''[vk] No physical devices found (res=0, count=0)\<newline>''] \<and>
           filter is_destroy (calls s) = [Call_vkDestroyInstance (created_instance d)] \<and>
           last (calls s) = Call_vkDestroyInstance (created_instance d)"
proof -
  obtain s where s: "main h d = (Inr 1, s)"
      "stderr s = [no_devices_text (count_status d) (device_count d)]"
      "calls s = startup_calls d @
             [Call_vkCreateInstance app_info VK_SUCCESS (created_instance d),
              Call_vkEnumeratePhysicalDevices (created_instance d) None,
              Call_vkDestroyInstance (created_instance d)]"
    using main_enumeration_failed [of d h] assms by blast
  have "no_devices_text (count_status d) (device_count d) =
        ''[vk] No physical devices found (res=0, count=0)\<newline>''"
    by (simp add: assms no_devices_text_def VK_SUCCESS_def fmt_d_def fmt_u.simps [of 0]
          digit_char_def)
  moreover have "filter is_destroy (calls s) = [Call_vkDestroyInstance (created_instance d)]"
    by (simp add: s(3) startup_calls_filter)
  moreover have "last (calls s) = Call_vkDestroyInstance (created_instance d)"
    by (simp add: s(3))
  ultimately show ?thesis using s(1,2) by simp
qed

theorem zero_devices_exit_witness:
  "\<exists>s. main (sample_host 1000) (sample_driver None 0 (0, 0) (0, [])) = (Inr 1, s) \<and>
     stderr s = [''[vk] No physical devices found (res=0, count=0)\<newline>''] \<and>
     filter is_destroy (calls s) = [Call_vkDestroyInstance 0x1000] \<and>
     last (calls s) = Call_vkDestroyInstance 0x1000"
  using zero_devices_exit [of "sample_driver None 0 (0, 0) (0, [])" "sample_host 1000"]
  by (simp add: sample_driver_responses VK_SUCCESS_def)

text \<open>
  Claim C4. If the context-creation call returns a status other than success, the
  program prints that status as a signed decimal number to standard error, exits with
  code 1, and its trace holds no device-enumeration call and no context destruction.
\<close>
theorem create_failure_exit:
  assumes "create_status d \<noteq> VK_SUCCESS"
  shows "\<exists>s. main h d = (Inr 1, s) \<and>
           stderr s = [''[vk] vkCreateInstance failed: '' @ fmt_d (sint (create_status d))
                        @ ''\<newline>''] \<and>
           filter is_enumerate (calls s) = [] \<and> filter is_destroy (calls s) = []"
proof -
  obtain s where s: "main h d = (Inr 1, s)" "stderr s = [create_failed_text (create_status d)]"
      "calls s = startup_calls d @
         [Call_vkCreateInstance app_info (create_status d) (created_instance d)]"
    using main_create_failed [OF assms, of h] by blast
  have "filter is_enumerate (calls s) = []" "filter is_destroy (calls s) = []"
    by (simp_all add: s(3) startup_calls_filter)
  with s(1,2) show ?thesis
    by (simp add: create_failed_text_def)
qed

text \<open>
  The scenario of the specification: the creation call returns -3.
\<close>
theorem create_failure_exit_witness:
  "\<exists>s. main (sample_host 1000) (sample_driver None (- 3) (0, 2) (0, [0xA, 0xB])) = (Inr 1, s) \<and>
     stderr s = [''[vk] vkCreateInstance failed: -3\<newline>''] \<and>
     filter is_enumerate (calls s) = [] \<and> filter is_destroy (calls s) = []"
proof -
  let ?d = "sample_driver None (- 3) (0, 2) (0, [0xA, 0xB])"
  have st: "create_status ?d = - 3"
    by (simp add: create_status_def sample_driver_def)
  then have "create_status ?d \<noteq> VK_SUCCESS"
    by (simp add: VK_SUCCESS_def)
  from create_failure_exit [OF this, of "sample_host 1000"] show ?thesis
    by (simp add: st fmt_d_def fmt_u.simps [of 3] digit_char_def)
qed

text \<open>
  Claim C5. If the counting enumeration call returns a status other than success, the
  program exits with code 1 and its trace is the start-up calls, the creation, the
  counting call and the destruction: the vector of device handles is never allocated,
  filled or read.
\<close>
theorem enumeration_failure_exit:
  assumes "create_status d = VK_SUCCESS" "count_status d \<noteq> VK_SUCCESS"
  shows "\<exists>s. main h d = (Inr 1, s) \<and>
           calls s = startup_calls d @
             [Call_vkCreateInstance app_info VK_SUCCESS (created_instance d),
              Call_vkEnumeratePhysicalDevices (created_instance d) None,
              Call_vkDestroyInstance (created_instance d)] \<and>
           filter touches_vector (calls s) = []"
proof -
  obtain s where s: "main h d = (Inr 1, s)"
      "calls s = startup_calls d @
             [Call_vkCreateInstance app_info VK_SUCCESS (created_instance d),
              Call_vkEnumeratePhysicalDevices (created_instance d) None,
              Call_vkDestroyInstance (created_instance d)]"
    using main_enumeration_failed [of d h] assms by blast
  have "filter touches_vector (calls s) = []"
    by (simp add: s(2) startup_calls_filter)
  with s show ?thesis by simp
qed

theorem enumeration_failure_exit_witness:
  "\<exists>s. main (sample_host 1000) (sample_driver None 0 (- 4, 7) (0, [0xA])) = (Inr 1, s) \<and>
     calls s = [Call_vkGetInstanceProcAddr ''vkEnumerateInstanceVersion'',
                Call_vkCreateInstance app_info VK_SUCCESS 0x1000,
                Call_vkEnumeratePhysicalDevices 0x1000 None,
                Call_vkDestroyInstance 0x1000] \<and>
     filter touches_vector (calls s) = []"
proof -
  let ?d = "sample_driver None 0 (- 4, 7) (0, [0xA])"
  have "startup_calls ?d = [Call_vkGetInstanceProcAddr ''vkEnumerateInstanceVersion'']"
    by (simp add: startup_calls_def query_loader_version_eq sample_driver_def log_event_def
          init_state_def)
  then show ?thesis
    using enumeration_failure_exit [of ?d "sample_host 1000"]
    by (simp add: sample_driver_responses VK_SUCCESS_def)
qed

text \<open>
  Claim C6. The loader query never fails: the call through the function pointer is made
  only when the pointer is not null. When the optional entry point cannot be resolved the
  version is exactly the baseline 1.0.0. For every supported loader, that is one whose
  entry point, when present, reports at least 1.0.0, the version returned is at least the
  baseline: as a packed value, and with a major number of at least 1.
\<close>
theorem query_loader_version_baseline:
  "\<exists>v s'. query_loader_version d s = (Inr v, s') \<and>
     (vkGetInstanceProcAddr d ''vkEnumerateInstanceVersion'' = None \<longrightarrow>
        v = VK_API_VERSION_1_0 \<and> VK_VERSION_MAJOR v = 1 \<and> VK_VERSION_MINOR v = 0 \<and>
        VK_VERSION_PATCH v = 0) \<and>
     (supported_loader d \<longrightarrow> VK_API_VERSION_1_0 \<le> v \<and> 1 \<le> VK_VERSION_MAJOR v)"
proof (cases "vkGetInstanceProcAddr d ''vkEnumerateInstanceVersion''")
  case None
  have "VK_VERSION_MAJOR VK_API_VERSION_1_0 = 1" "VK_VERSION_MINOR VK_API_VERSION_1_0 = 0"
    "VK_VERSION_PATCH VK_API_VERSION_1_0 = 0"
    by (simp_all add: VK_API_VERSION_1_0_def VK_MAKE_VERSION_def VK_VERSION_MAJOR_def
          VK_VERSION_MINOR_def VK_VERSION_PATCH_def)
  with None show ?thesis
    by (simp add: query_loader_version_eq)
next
  case (Some f)
  then have run: "query_loader_version d s =
      (Inr (snd (f VK_API_VERSION_1_0)),
       log_event Call_vkEnumerateInstanceVersion
         (log_event (Call_vkGetInstanceProcAddr ''vkEnumerateInstanceVersion'') s))"
    by (simp add: query_loader_version_eq)
  have "supported_loader d \<longrightarrow> VK_API_VERSION_1_0 \<le> snd (f VK_API_VERSION_1_0) \<and>
          1 \<le> VK_VERSION_MAJOR (snd (f VK_API_VERSION_1_0))"
    using Some baseline_major [of "snd (f VK_API_VERSION_1_0)"]
    by (simp add: supported_loader_def)
  with run Some show ?thesis
    by simp
qed

theorem query_loader_version_baseline_witness:
  "(\<exists>s'. query_loader_version (sample_driver None 0 (0, 0) (0, [])) init_state
           = (Inr VK_API_VERSION_1_0, s')) \<and>
   supported_loader (sample_driver (Some (\<lambda>v. (0, VK_MAKE_VERSION 1 3 0))) 0 (0, 0) (0, [])) \<and>
   (\<exists>v s'. query_loader_version
             (sample_driver (Some (\<lambda>v. (0, VK_MAKE_VERSION 1 3 0))) 0 (0, 0) (0, [])) init_state
           = (Inr v, s') \<and> VK_API_VERSION_1_0 \<le> v \<and> 1 \<le> VK_VERSION_MAJOR v)"
proof -
  let ?a = "sample_driver None 0 (0, 0) (0, [])"
  let ?b = "sample_driver (Some (\<lambda>v. (0, VK_MAKE_VERSION 1 3 0))) 0 (0, 0) (0, [])"
  have absent: "vkGetInstanceProcAddr ?a ''vkEnumerateInstanceVersion'' = None"
    by (simp add: sample_driver_def)
  have supported: "supported_loader ?b"
    by (simp add: supported_loader_def sample_driver_def VK_API_VERSION_1_0_def
          VK_MAKE_VERSION_def)
  from query_loader_version_baseline [of ?a init_state] absent
  have "\<exists>s'. query_loader_version ?a init_state = (Inr VK_API_VERSION_1_0, s')"
    by auto
  moreover from query_loader_version_baseline [of ?b init_state] supported
  have "\<exists>v s'. query_loader_version ?b init_state = (Inr v, s') \<and> VK_API_VERSION_1_0 \<le> v \<and>
          1 \<le> VK_VERSION_MAJOR v"
    by auto
  ultimately show ?thesis
    using supported by blast
qed

text \<open>
  Claim C7, as stated, fails in four ways.
  \<^item> \<^verbatim>\<open>%04x\<close> is a least width and \<open>deviceID\<close> a 32-bit value: a device whose identifier is
    0x12345 is listed with five hexadecimal digits.
  \<^item> The loop runs over the count the filling call leaves: a driver that counts 2 devices
    and then writes 1 handle gives 1 device line.
  \<^item> A device name that holds a newline gives two lines that start with the list marker
    for one device.
  \<^item> When the vector of N handles cannot be allocated, the run is aborted and no device
    line is printed.
\<close>
theorem device_lines_counterexample:
  "device_lines (snd (main (sample_host 1000) (sample_driver None 0 (0, 1) (0, [0xB])))) =
     [''  - Beta | api 1.1.0 | driver 0x1 | deviceID 0x12345''] \<and>
   deviceID_field ''  - Beta | api 1.1.0 | driver 0x1 | deviceID 0x12345'' = ''12345'' \<and>
   length (deviceID_field ''  - Beta | api 1.1.0 | driver 0x1 | deviceID 0x12345'') \<noteq> 4 \<and>
   count_status (sample_driver None 0 (0, 2) (0, [0xA])) = VK_SUCCESS \<and>
   device_count (sample_driver None 0 (0, 2) (0, [0xA])) = 2 \<and>
   exit_code (sample_host 1000) (sample_driver None 0 (0, 2) (0, [0xA])) = Some 0 \<and>
   device_lines (snd (main (sample_host 1000) (sample_driver None 0 (0, 2) (0, [0xA])))) =
     [''  - Alpha | api 1.3.250 | driver 0x801f | deviceID 0x1c82''] \<and>
   device_count (sample_driver None 0 (0, 1) (0, [0xC])) = 1 \<and>
   exit_code (sample_host 1000) (sample_driver None 0 (0, 1) (0, [0xC])) = Some 0 \<and>
   device_lines (snd (main (sample_host 1000) (sample_driver None 0 (0, 1) (0, [0xC])))) =
     [''  - Gamma'', ''  - Delta | api 1.0.0 | driver 0x2 | deviceID 0x0003''] \<and>
   count_status (sample_driver None 0 (0, 0xFFFFFFFF) (0, [0xA])) = VK_SUCCESS \<and>
   exit_code (sample_host 1000) (sample_driver None 0 (0, 0xFFFFFFFF) (0, [0xA])) = None"
proof -
  let ?h = "sample_host 1000"
  let ?w = "sample_driver None 0 (0, 1) (0, [0xB])"
  let ?f = "sample_driver None 0 (0, 2) (0, [0xA])"
  have "device_lines (snd (main ?h ?w)) =
          map (device_line_body \<circ> vkGetPhysicalDeviceProperties ?w) (listed_devices ?w)"
    by (rule lines_listed)
       (simp_all add: sample_driver_responses VK_SUCCESS_def sample_host_allocates sample_names)
  then have wide: "device_lines (snd (main ?h ?w)) =
     [''  - Beta | api 1.1.0 | driver 0x1 | deviceID 0x12345'']"
    by (simp add: sample_driver_responses sample_bodies)
  have "deviceID_field (device_line_body (sample_properties 0xB)) = ''12345''"
    by (simp add: deviceID_field_line sample_properties_def fmt_eval)
  then have field: "deviceID_field ''  - Beta | api 1.1.0 | driver 0x1 | deviceID 0x12345''
                    = ''12345''"
    by (simp only: sample_bodies)
  have "device_lines (snd (main ?h ?f)) =
          map (device_line_body \<circ> vkGetPhysicalDeviceProperties ?f) (listed_devices ?f)"
    by (rule lines_listed)
       (simp_all add: sample_driver_responses VK_SUCCESS_def sample_host_allocates sample_names)
  then have fewer: "device_lines (snd (main ?h ?f)) =
     [''  - Alpha | api 1.3.250 | driver 0x801f | deviceID 0x1c82'']"
    by (simp add: sample_driver_responses sample_bodies)
  have codes: "exit_code ?h ?f = Some 0"
    "exit_code ?h (sample_driver None 0 (0, 1) (0, [0xC])) = Some 0"
    "exit_code ?h (sample_driver None 0 (0, 0xFFFFFFFF) (0, [0xA])) = None"
    by (simp_all add: exit_code_value sample_driver_responses VK_SUCCESS_def
          sample_host_allocates)
  show ?thesis
    by (simp add: wide field fewer codes gamma_lines sample_driver_responses VK_SUCCESS_def)
qed

text \<open>
  Claim C7, amended. When the driver reports N devices (success, N above zero), the vector
  of N handles can be allocated, the filling call writes N handles and no device name
  holds a newline, standard output is the banner, the "Found N" line, N device lines in
  the driver's order and the closing line, and the exit code is 0. Each device line is
  \<^verbatim>\<open>  - <name> | api <major.minor.patch> | driver 0x<hex> | deviceID 0x<hex>\<close> where the
  last field is padded with zeros to at least four digits: exactly four when the
  identifier is below 0x10000, more otherwise.
\<close>
theorem device_lines_listed:
  assumes "create_status d = VK_SUCCESS" "count_status d = VK_SUCCESS" "device_count d \<noteq> 0"
    and "can_allocate h (unat (device_count d))"
    and "unat (device_count d)
           \<le> length (snd (enumerate_fill d (created_instance d) (device_count d)))"
    and "\<forall>dev \<in> set (listed_devices d).
           newline_free (deviceName (vkGetPhysicalDeviceProperties d dev))"
  shows "\<exists>s. main h d = (Inr 0, s) \<and>
           stdout s = [banner_text d, found_text (unat (device_count d))]
             @ map (device_line_text \<circ> vkGetPhysicalDeviceProperties d) (listed_devices d)
             @ [''[vk] Sanity OK.\<newline>''] \<and>
           device_lines s =
             map (device_line_body \<circ> vkGetPhysicalDeviceProperties d) (listed_devices d) \<and>
           length (device_lines s) = unat (device_count d) \<and>
           (\<forall>l \<in> set (device_lines s). \<exists>p :: VkPhysicalDeviceProperties.
              l = ''  - '' @ deviceName p @ '' | api '' @ version_text (props_apiVersion p)
                    @ '' | driver 0x'' @ fmt_x (unat (driverVersion p)) @ '' | deviceID 0x''
                    @ fmt_04x (unat (deviceID p)) \<and>
              deviceID_field l = fmt_04x (unat (deviceID p)) \<and>
              4 \<le> length (deviceID_field l) \<and>
              (length (deviceID_field l) = 4 \<longleftrightarrow> deviceID p < 0x10000))"
proof -
  have len: "length (listed_devices d) = unat (device_count d)"
    using assms(5) by (simp add: listed_devices_def)
  obtain s where s: "main h d = (Inr 0, s)"
      "stdout s = [banner_text d, found_text (length (listed_devices d))]
             @ map (device_line_text \<circ> vkGetPhysicalDeviceProperties d) (listed_devices d)
             @ [''[vk] Sanity OK.\<newline>'']"
    using main_listed [OF assms(1-4)] by blast
  have lines: "device_lines s =
      map (device_line_body \<circ> vkGetPhysicalDeviceProperties d) (listed_devices d)"
    by (rule lines_of_run [OF s(2) assms(6)])
  have "\<exists>p :: VkPhysicalDeviceProperties.
              l = ''  - '' @ deviceName p @ '' | api '' @ version_text (props_apiVersion p)
                    @ '' | driver 0x'' @ fmt_x (unat (driverVersion p)) @ '' | deviceID 0x''
                    @ fmt_04x (unat (deviceID p)) \<and>
              deviceID_field l = fmt_04x (unat (deviceID p)) \<and>
              4 \<le> length (deviceID_field l) \<and>
              (length (deviceID_field l) = 4 \<longleftrightarrow> deviceID p < 0x10000)"
    if "l \<in> set (device_lines s)" for l
  proof -
    from that lines obtain p where p: "l = device_line_body p"
      by auto
    have "deviceID p < 0x10000 \<longleftrightarrow> unat (deviceID p) < 65536"
      by (simp add: word_less_nat_alt)
    then have field: "deviceID_field l = fmt_04x (unat (deviceID p)) \<and>
              4 \<le> length (deviceID_field l) \<and>
              (length (deviceID_field l) = 4 \<longleftrightarrow> deviceID p < 0x10000)"
      by (simp add: p deviceID_field_line fmt_04x_length)
    have shape: "l = ''  - '' @ deviceName p @ '' | api '' @ version_text (props_apiVersion p)
                    @ '' | driver 0x'' @ fmt_x (unat (driverVersion p)) @ '' | deviceID 0x''
                    @ fmt_04x (unat (deviceID p))"
      by (simp add: p device_line_body_def)
    from field have f1: "deviceID_field l = fmt_04x (unat (deviceID p))"
      and f2: "4 \<le> length (deviceID_field l)"
      and f3: "length (deviceID_field l) = 4 \<longleftrightarrow> deviceID p < 0x10000"
      by blast+
    show ?thesis
      by (intro exI conjI) (rule shape, rule f1, rule f2, rule f3)
  qed
  moreover have "length (device_lines s) = unat (device_count d)"
    by (simp add: lines len)
  ultimately show ?thesis
    using s len lines by auto
qed

theorem device_lines_listed_witness:
  "\<exists>s. main (sample_host 1000) (sample_driver None 0 (0, 2) (0, [0xA, 0xB])) = (Inr 0, s) \<and>
     stdout s =
       [''[vk] Loader supports: Vulkan 1.0.0\<newline>'',
        ''[vk] Found 2 physical device(s)\<newline>'',
        ''  - Alpha | api 1.3.250 | driver 0x801f | deviceID 0x1c82\<newline>'',
        ''  - Beta | api 1.1.0 | driver 0x1 | deviceID 0x12345\<newline>'',
        ''[vk] Sanity OK.\<newline>''] \<and>
     device_lines s =
       [''  - Alpha | api 1.3.250 | driver 0x801f | deviceID 0x1c82'',
        ''  - Beta | api 1.1.0 | driver 0x1 | deviceID 0x12345''] \<and>
     length (device_lines s) = 2"
proof -
  let ?h = "sample_host 1000"
  let ?d = "sample_driver None 0 (0, 2) (0, [0xA, 0xB])"
  have filled: "enumerate_fill ?d inst capacity = (0, [0xA, 0xB])" for inst capacity
    by (simp add: sample_driver_def)
  have "create_status ?d = VK_SUCCESS" "count_status ?d = VK_SUCCESS" "device_count ?d \<noteq> 0"
    "can_allocate ?h (unat (device_count ?d))"
    "unat (device_count ?d)
       \<le> length (snd (enumerate_fill ?d (created_instance ?d) (device_count ?d)))"
    "\<forall>dev \<in> set (listed_devices ?d).
       newline_free (deviceName (vkGetPhysicalDeviceProperties ?d dev))"
    by (simp_all add: filled sample_driver_responses VK_SUCCESS_def sample_host_allocates
          sample_names)
  from device_lines_listed [OF this] obtain s where s: "main ?h ?d = (Inr 0, s)"
    "stdout s = [banner_text ?d, found_text (unat (device_count ?d))]
             @ map (device_line_text \<circ> vkGetPhysicalDeviceProperties ?d) (listed_devices ?d)
             @ [''[vk] Sanity OK.\<newline>'']"
    "device_lines s =
       map (device_line_body \<circ> vkGetPhysicalDeviceProperties ?d) (listed_devices ?d)"
    "length (device_lines s) = unat (device_count ?d)"
    by blast
  have "stdout s =
       [''[vk] Loader supports: Vulkan 1.0.0\<newline>'',
        ''[vk] Found 2 physical device(s)\<newline>'',
        ''  - Alpha | api 1.3.250 | driver 0x801f | deviceID 0x1c82\<newline>'',
        ''  - Beta | api 1.1.0 | driver 0x1 | deviceID 0x12345\<newline>'',
        ''[vk] Sanity OK.\<newline>'']"
    by (simp add: s(2) sample_driver_responses sample_banner sample_lines found_text_def fmt_eval)
  moreover have "device_lines s =
       [''  - Alpha | api 1.3.250 | driver 0x801f | deviceID 0x1c82'',
        ''  - Beta | api 1.1.0 | driver 0x1 | deviceID 0x12345'']"
    by (simp add: s(3) sample_driver_responses sample_bodies)
  ultimately show ?thesis
    using s(1) by simp
qed

text \<open>
  Claim C8. Two runs on one host whose drivers give the same loader version, the same
  creation status, the same status and count on the counting call and the same properties
  records for the listed devices, in any order, end the same way (the same exit code, or
  the same failed allocation), with the same text on standard error and the same device
  listing up to the order of its texts.
\<close>
theorem listing_determined_up_to_order:
  assumes "loader_version d1 = loader_version d2"
    and "create_status d1 = create_status d2"
    and "count_status d1 = count_status d2"
    and "device_count d1 = device_count d2"
    and "mset (map (vkGetPhysicalDeviceProperties d1) (listed_devices d1)) =
         mset (map (vkGetPhysicalDeviceProperties d2) (listed_devices d2))"
  shows "\<exists>outcome s1 s2. main h d1 = (outcome, s1) \<and> main h d2 = (outcome, s2) \<and>
           mset (device_listing s1) = mset (device_listing s2) \<and>
           mset (stdout s1) = mset (stdout s2) \<and>
           stderr s1 = stderr s2"
proof -
  have banner: "banner_text d1 = banner_text d2"
    by (simp add: banner_text_def assms(1))
  show ?thesis
  proof (cases rule: main_cases [where d = d1 and h = h])
    case create_failed
    then obtain s1 where s1: "main h d1 = (Inr 1, s1)" "stdout s1 = [banner_text d1]"
        "stderr s1 = [create_failed_text (create_status d1)]"
      using main_create_failed [of d1 h] by blast
    from create_failed assms(2) obtain s2 where s2: "main h d2 = (Inr 1, s2)"
        "stdout s2 = [banner_text d2]" "stderr s2 = [create_failed_text (create_status d2)]"
      using main_create_failed [of d2 h] by auto
    show ?thesis
      using s1 s2 banner assms(2) by (simp add: device_listing_def)
  next
    case enumeration_failed
    then obtain s1 where s1: "main h d1 = (Inr 1, s1)" "stdout s1 = [banner_text d1]"
        "stderr s1 = [no_devices_text (count_status d1) (device_count d1)]"
      using main_enumeration_failed [of d1 h] by blast
    from enumeration_failed assms(2-4) obtain s2 where s2: "main h d2 = (Inr 1, s2)"
        "stdout s2 = [banner_text d2]"
        "stderr s2 = [no_devices_text (count_status d2) (device_count d2)]"
      using main_enumeration_failed [of d2 h] by auto
    show ?thesis
      using s1 s2 banner assms(3,4) by (simp add: device_listing_def)
  next
    case alloc_failed
    then obtain s1 where s1: "main h d1 = (Inl (Bad_alloc (unat (device_count d1))), s1)"
        "stdout s1 = [banner_text d1]" "stderr s1 = []"
      using main_alloc_failed [of d1 h] by blast
    from alloc_failed assms(2-4) obtain s2 where
        s2: "main h d2 = (Inl (Bad_alloc (unat (device_count d2))), s2)"
        "stdout s2 = [banner_text d2]" "stderr s2 = []"
      using main_alloc_failed [of d2 h] by auto
    show ?thesis
      using s1 s2 banner assms(4) by (simp add: device_listing_def)
  next
    case listed
    let ?l1 = "map (device_line_text \<circ> vkGetPhysicalDeviceProperties d1) (listed_devices d1)"
    let ?l2 = "map (device_line_text \<circ> vkGetPhysicalDeviceProperties d2) (listed_devices d2)"
    from listed obtain s1 where s1: "main h d1 = (Inr 0, s1)"
        "stdout s1 = [banner_text d1, found_text (length (listed_devices d1))] @ ?l1
             @ [''[vk] Sanity OK.\<newline>'']"
        "stderr s1 = []"
      using main_listed [of d1 h] by blast
    from listed assms(2-4) obtain s2 where s2: "main h d2 = (Inr 0, s2)"
        "stdout s2 = [banner_text d2, found_text (length (listed_devices d2))] @ ?l2
             @ [''[vk] Sanity OK.\<newline>'']"
        "stderr s2 = []"
      using main_listed [of d2 h] by auto
    have "size (mset (map (vkGetPhysicalDeviceProperties d1) (listed_devices d1))) =
          size (mset (map (vkGetPhysicalDeviceProperties d2) (listed_devices d2)))"
      by (simp only: assms(5))
    then have len: "length (listed_devices d1) = length (listed_devices d2)"
      by simp
    have "image_mset device_line_text
            (mset (map (vkGetPhysicalDeviceProperties d1) (listed_devices d1))) =
          image_mset device_line_text
            (mset (map (vkGetPhysicalDeviceProperties d2) (listed_devices d2)))"
      by (simp only: assms(5))
    then have lines: "mset ?l1 = mset ?l2"
      by (simp add: multiset.map_comp)
    have "mset (device_listing s1) = mset (device_listing s2)"
      using lines by (simp only: listing_of_run [OF s1(2)] listing_of_run [OF s2(2)])
    moreover have "mset (stdout s1) = mset (stdout s2)"
      using lines by (simp add: s1(2) s2(2) banner len)
    ultimately show ?thesis
      using s1(1,3) s2(1,3) by simp
  qed
qed

theorem listing_determined_up_to_order_witness:
  "\<exists>outcome s1 s2.
     main (sample_host 1000) (sample_driver None 0 (0, 2) (0, [0xA, 0xB])) = (outcome, s1) \<and>
     main (sample_host 1000) (sample_driver None 0 (0, 2) (0, [0xB, 0xA])) = (outcome, s2) \<and>
     mset (device_listing s1) = mset (device_listing s2) \<and>
     mset (stdout s1) = mset (stdout s2) \<and>
     stderr s1 = stderr s2"
proof -
  let ?d1 = "sample_driver None 0 (0, 2) (0, [0xA, 0xB])"
  let ?d2 = "sample_driver None 0 (0, 2) (0, [0xB, 0xA])"
  have "loader_version ?d1 = loader_version ?d2" "create_status ?d1 = create_status ?d2"
    "count_status ?d1 = count_status ?d2" "device_count ?d1 = device_count ?d2"
    "mset (map (vkGetPhysicalDeviceProperties ?d1) (listed_devices ?d1)) =
     mset (map (vkGetPhysicalDeviceProperties ?d2) (listed_devices ?d2))"
    by (simp_all add: sample_driver_responses sample_loader_version)
  then show ?thesis
    by (rule listing_determined_up_to_order)
qed

text \<open>
  Claim C9. For every packed version \<open>v\<close>, \<^verbatim>\<open>ApiVersionToStr\<close> leaves in its static buffer the
  text M.m.p with M = v >> 22, m = (v >> 12) & 0x3FF and p = v & 0xFFF, never cut short
  by the 64-byte buffer, and returns the buffer's address. Although all calls share that
  buffer, each print of main reads it before the next call: the banner shows the loader
  version, and the text of each listed device shows that device's own version.
\<close>
theorem ApiVersionToStr_own_version:
  "ApiVersionToStr v s =
     (Static_buf,
      s\<lparr>buf := fmt_u (unat (drop_bit 22 v)) @ ''.'' @ fmt_u (unat (drop_bit 12 v AND 0x3FF))
                @ ''.'' @ fmt_u (unat (v AND 0xFFF))\<rparr>) \<and>
   (\<exists>outcome s'. main h d = (outcome, s') \<and>
      hd (stdout s') =
        ''[vk] Loader supports: Vulkan '' @ version_text (loader_version d) @ ''\<newline>'' \<and>
      device_listing s' =
        map (\<lambda>p. ''  - '' @ deviceName p @ '' | api '' @ version_text (props_apiVersion p)
                   @ '' | driver 0x'' @ fmt_x (unat (driverVersion p)) @ '' | deviceID 0x''
                   @ fmt_04x (unat (deviceID p)) @ ''\<newline>'')
          (map (vkGetPhysicalDeviceProperties d)
             (if outcome = Inr 0 then listed_devices d else [])))"
proof
  show "ApiVersionToStr v s =
     (Static_buf,
      s\<lparr>buf := fmt_u (unat (drop_bit 22 v)) @ ''.'' @ fmt_u (unat (drop_bit 12 v AND 0x3FF))
                @ ''.'' @ fmt_u (unat (v AND 0xFFF))\<rparr>)"
    by (simp add: ApiVersionToStr_eq version_text_def VK_VERSION_MAJOR_def VK_VERSION_MINOR_def
          VK_VERSION_PATCH_def)
next
  let ?line = "\<lambda>p. ''  - '' @ deviceName p @ '' | api '' @ version_text (props_apiVersion p)
                   @ '' | driver 0x'' @ fmt_x (unat (driverVersion p)) @ '' | deviceID 0x''
                   @ fmt_04x (unat (deviceID p)) @ ''\<newline>''"
  have line: "?line = device_line_text"
    by (rule ext) (simp add: device_line_text_def)
  have banner: "banner_text d =
     ''[vk] Loader supports: Vulkan '' @ version_text (loader_version d) @ ''\<newline>''"
    by (simp add: banner_text_def)
  have quiet: "\<exists>outcome s'. main h d = (outcome, s') \<and>
      hd (stdout s') =
        ''[vk] Loader supports: Vulkan '' @ version_text (loader_version d) @ ''\<newline>'' \<and>
      device_listing s' =
        map ?line (map (vkGetPhysicalDeviceProperties d)
                     (if outcome = Inr 0 then listed_devices d else []))"
    if run: "main h d = (outcome, s')" "stdout s' = [banner_text d]" "outcome \<noteq> Inr 0"
    for outcome s'
  proof -
    have "device_listing s' = []"
      by (simp add: device_listing_def run(2) is_device_line_texts)
    moreover have "hd (stdout s') =
        ''[vk] Loader supports: Vulkan '' @ version_text (loader_version d) @ ''\<newline>''"
      by (simp add: run(2) banner)
    ultimately show ?thesis using run(1,3) by simp
  qed
  show "\<exists>outcome s'. main h d = (outcome, s') \<and>
      hd (stdout s') =
        ''[vk] Loader supports: Vulkan '' @ version_text (loader_version d) @ ''\<newline>'' \<and>
      device_listing s' =
        map ?line (map (vkGetPhysicalDeviceProperties d)
                     (if outcome = Inr 0 then listed_devices d else []))"
  proof (cases rule: main_cases [where d = d and h = h])
    case create_failed
    then obtain s' where "main h d = (Inr 1, s')" "stdout s' = [banner_text d]"
      using main_create_failed [of d h] by blast
    then show ?thesis by (rule quiet) simp
  next
    case enumeration_failed
    then obtain s' where "main h d = (Inr 1, s')" "stdout s' = [banner_text d]"
      using main_enumeration_failed [of d h] by blast
    then show ?thesis by (rule quiet) simp
  next
    case alloc_failed
    then obtain s' where "main h d = (Inl (Bad_alloc (unat (device_count d))), s')"
      "stdout s' = [banner_text d]"
      using main_alloc_failed [of d h] by blast
    then show ?thesis by (rule quiet) simp
  next
    case listed
    then obtain s' where s': "main h d = (Inr 0, s')"
      "stdout s' = [banner_text d, found_text (length (listed_devices d))]
             @ map (device_line_text \<circ> vkGetPhysicalDeviceProperties d) (listed_devices d)
             @ [''[vk] Sanity OK.\<newline>'']"
      using main_listed [of d h] by blast
    have "device_listing s' =
          map (device_line_text \<circ> vkGetPhysicalDeviceProperties d) (listed_devices d)"
      by (rule listing_of_run [OF s'(2)])
    then have "device_listing s' =
          map ?line (map (vkGetPhysicalDeviceProperties d) (listed_devices d))"
      by (simp only: line map_map)
    moreover have "hd (stdout s') =
        ''[vk] Loader supports: Vulkan '' @ version_text (loader_version d) @ ''\<newline>''"
      by (simp add: s'(2) banner)
    ultimately show ?thesis using s'(1) by simp
  qed
qed

theorem ApiVersionToStr_own_version_witness:
  "ApiVersionToStr (VK_MAKE_VERSION 1 3 250) init_state =
     (Static_buf, init_state\<lparr>buf := ''1.3.250''\<rparr>) \<and>
   (\<exists>s'. main (sample_host 1000) (sample_driver None 0 (0, 2) (0, [0xA, 0xB])) = (Inr 0, s') \<and>
      hd (stdout s') = ''[vk] Loader supports: Vulkan 1.0.0\<newline>'' \<and>
      device_listing s' =
        [''  - Alpha | api 1.3.250 | driver 0x801f | deviceID 0x1c82\<newline>'',
         ''  - Beta | api 1.1.0 | driver 0x1 | deviceID 0x12345\<newline>''])"
proof -
  let ?h = "sample_host 1000"
  let ?d = "sample_driver None 0 (0, 2) (0, [0xA, 0xB])"
  let ?v = "VK_MAKE_VERSION 1 3 250"
  have code: "fst (main ?h ?d) = Inr 0"
    using main_listed [of ?d ?h]
    by (auto simp add: sample_driver_responses VK_SUCCESS_def sample_host_allocates)
  obtain outcome s' where run: "main ?h ?d = (outcome, s')"
    "hd (stdout s') =
        ''[vk] Loader supports: Vulkan '' @ version_text (loader_version ?d) @ ''\<newline>''"
    "device_listing s' =
        map (\<lambda>p. ''  - '' @ deviceName p @ '' | api '' @ version_text (props_apiVersion p)
                   @ '' | driver 0x'' @ fmt_x (unat (driverVersion p)) @ '' | deviceID 0x''
                   @ fmt_04x (unat (deviceID p)) @ ''\<newline>'')
          (map (vkGetPhysicalDeviceProperties ?d)
             (if outcome = Inr 0 then listed_devices ?d else []))"
    using ApiVersionToStr_own_version [of ?v init_state ?h ?d] by blast
  have first: "ApiVersionToStr ?v init_state =
     (Static_buf,
      init_state\<lparr>buf := fmt_u (unat (drop_bit 22 ?v)) @ ''.'' @ fmt_u (unat (drop_bit 12 ?v AND 0x3FF))
                @ ''.'' @ fmt_u (unat (?v AND 0xFFF))\<rparr>)"
    using ApiVersionToStr_own_version [of ?v init_state ?h ?d] by blast
  have "fmt_u (unat (drop_bit 22 ?v)) @ ''.'' @ fmt_u (unat (drop_bit 12 ?v AND 0x3FF))
                @ ''.'' @ fmt_u (unat (?v AND 0xFFF)) = ''1.3.250''"
    by (simp add: VK_MAKE_VERSION_def fmt_eval)
  with first have a: "ApiVersionToStr ?v init_state = (Static_buf, init_state\<lparr>buf := ''1.3.250''\<rparr>)"
    by simp
  from code run(1) have c0: "outcome = Inr 0"
    by simp
  have b: "hd (stdout s') = ''[vk] Loader supports: Vulkan 1.0.0\<newline>''"
    by (simp add: run(2) sample_loader_version baseline_text)
  have "device_listing s' = [device_line_text (sample_properties 0xA),
                            device_line_text (sample_properties 0xB)]"
    by (simp add: run(3) c0 sample_driver_responses device_line_text_def)
  then have c: "device_listing s' =
        [''  - Alpha | api 1.3.250 | driver 0x801f | deviceID 0x1c82\<newline>'',
         ''  - Beta | api 1.1.0 | driver 0x1 | deviceID 0x12345\<newline>'']"
    by (simp only: sample_lines)
  from a b c run(1) c0 show ?thesis by blast
qed

text \<open>
  Claim C10, as stated, fails in three ways. The number of device lines is not decided by
  the counting call: with the same response to it (success, 2 devices), a filling call
  that fails and writes no handle gives "Found 0" and no device line, one that writes two
  handles gives two. A count too large for the host ends the run at the allocation, with
  no exit code 0, whatever the filling call would have returned. And a device name with a
  newline gives two marked lines for one device.
\<close>
theorem second_enumeration_counterexample:
  "enumerate_count (sample_driver None 0 (0, 2) (- 1, [])) 0x1000 =
   enumerate_count (sample_driver None 0 (0, 2) (0, [0xA, 0xB])) 0x1000 \<and>
   exit_code (sample_host 1000) (sample_driver None 0 (0, 2) (- 1, [])) = Some 0 \<and>
   stdout (snd (main (sample_host 1000) (sample_driver None 0 (0, 2) (- 1, [])))) ! 1 =
     ''[vk] Found 0 physical device(s)\<newline>'' \<and>
   device_lines (snd (main (sample_host 1000) (sample_driver None 0 (0, 2) (- 1, [])))) = [] \<and>
   length (device_lines
     (snd (main (sample_host 1000) (sample_driver None 0 (0, 2) (0, [0xA, 0xB]))))) = 2 \<and>
   count_status (sample_driver None 0 (0, 0xFFFFFFFF) (- 1, [])) = VK_SUCCESS \<and>
   device_count (sample_driver None 0 (0, 0xFFFFFFFF) (- 1, [])) \<noteq> 0 \<and>
   exit_code (sample_host 1000) (sample_driver None 0 (0, 0xFFFFFFFF) (- 1, [])) = None \<and>
   length (listed_devices (sample_driver None 0 (0, 1) (- 1, [0xC]))) = 1 \<and>
   length (device_lines
     (snd (main (sample_host 1000) (sample_driver None 0 (0, 1) (- 1, [0xC]))))) = 2"
proof -
  let ?h = "sample_host 1000"
  let ?z = "sample_driver None 0 (0, 2) (- 1, [])"
  let ?t = "sample_driver None 0 (0, 2) (0, [0xA, 0xB])"
  let ?g = "sample_driver None 0 (0, 1) (- 1, [0xC])"
  have same: "enumerate_count ?z 0x1000 = enumerate_count ?t 0x1000"
    by (simp add: sample_driver_def)
  have codes: "exit_code ?h ?z = Some 0"
    "exit_code ?h (sample_driver None 0 (0, 0xFFFFFFFF) (- 1, [])) = None"
    by (simp_all add: exit_code_value sample_driver_responses VK_SUCCESS_def
          sample_host_allocates)
  have "stdout (snd (main ?h ?z)) = [banner_text ?z, found_text (length (listed_devices ?z))]
             @ map (device_line_text \<circ> vkGetPhysicalDeviceProperties ?z) (listed_devices ?z)
             @ [''[vk] Sanity OK.\<newline>'']"
    by (rule stdout_listed)
       (simp_all add: sample_driver_responses VK_SUCCESS_def sample_host_allocates)
  then have "stdout (snd (main ?h ?z)) =
      [banner_text ?z, found_text 0, ''[vk] Sanity OK.\<newline>'']"
    by (simp add: sample_driver_responses)
  then have found: "stdout (snd (main ?h ?z)) ! 1 = ''[vk] Found 0 physical device(s)\<newline>''"
    by (simp add: found_texts)
  have "device_lines (snd (main ?h ?z)) =
          map (device_line_body \<circ> vkGetPhysicalDeviceProperties ?z) (listed_devices ?z)"
    by (rule lines_listed)
       (simp_all add: sample_driver_responses VK_SUCCESS_def sample_host_allocates)
  then have none: "device_lines (snd (main ?h ?z)) = []"
    by (simp add: sample_driver_responses)
  have "device_lines (snd (main ?h ?t)) =
          map (device_line_body \<circ> vkGetPhysicalDeviceProperties ?t) (listed_devices ?t)"
    by (rule lines_listed)
       (simp_all add: sample_driver_responses VK_SUCCESS_def sample_host_allocates sample_names)
  then have two: "length (device_lines (snd (main ?h ?t))) = 2"
    by (simp add: sample_driver_responses)
  have "main ?h (sample_driver None 0 (0, 1) (0, [0xC])) = main ?h ?g"
    by (rule main_driver_cong) (simp_all add: sample_driver_def)
  then have gamma: "length (device_lines (snd (main ?h ?g))) = 2"
    using gamma_lines by simp
  show ?thesis
    using same codes found none two gamma
    by (simp add: sample_driver_responses VK_SUCCESS_def)
qed

text \<open>
  Claim C10, amended. The status returned by the filling enumeration call is discarded:
  replacing it by any status \<open>r\<close> leaves the whole run unchanged. The exit code is a
  function of the creation status, of the counting call's status and count and of the
  host's allocation. Once creation and the counting call succeeded with a count other
  than zero and the vector was allocated, the program exits with code 0, even if the
  filling call reports a failure, and prints one device text per handle that call wrote:
  the number left in \<open>physical_device_count\<close> and shown in the "Found" line. These are as
  many lines of the stream when no name holds a newline, and as many as the counting call
  reported only when the filling call fills the whole array.
\<close>
theorem second_enumeration_status_discarded:
  "main h (d\<lparr>enumerate_fill := \<lambda>inst capacity. (r, snd (enumerate_fill d inst capacity))\<rparr>)
     = main h d \<and>
   (create_status d = VK_SUCCESS \<and> count_status d = VK_SUCCESS \<and> device_count d \<noteq> 0 \<and>
    can_allocate h (unat (device_count d)) \<longrightarrow>
      (\<exists>s. main h d = (Inr 0, s) \<and>
         stdout s ! 1 = found_text (length (listed_devices d)) \<and>
         device_listing s =
           map (device_line_text \<circ> vkGetPhysicalDeviceProperties d) (listed_devices d) \<and>
         ((\<forall>dev \<in> set (listed_devices d).
             newline_free (deviceName (vkGetPhysicalDeviceProperties d dev))) \<longrightarrow>
          length (device_lines s) = length (listed_devices d)) \<and>
         (unat (device_count d)
            \<le> length (snd (enumerate_fill d (created_instance d) (device_count d))) \<longrightarrow>
          length (listed_devices d) = unat (device_count d)))) \<and>
   (create_status d' = create_status d \<and> count_status d' = count_status d \<and>
    device_count d' = device_count d \<longrightarrow> exit_code h d' = exit_code h d)"
proof (intro conjI impI)
  let ?d = "d\<lparr>enumerate_fill := \<lambda>inst capacity. (r, snd (enumerate_fill d inst capacity))\<rparr>"
  show "main h ?d = main h d"
    by (rule main_driver_cong) simp_all
next
  assume ok: "create_status d = VK_SUCCESS \<and> count_status d = VK_SUCCESS \<and>
    device_count d \<noteq> 0 \<and> can_allocate h (unat (device_count d))"
  then obtain s where s: "main h d = (Inr 0, s)"
      "stdout s = [banner_text d, found_text (length (listed_devices d))]
             @ map (device_line_text \<circ> vkGetPhysicalDeviceProperties d) (listed_devices d)
             @ [''[vk] Sanity OK.\<newline>'']"
    using main_listed [of d h] by blast
  have "device_listing s =
          map (device_line_text \<circ> vkGetPhysicalDeviceProperties d) (listed_devices d)"
    by (rule listing_of_run [OF s(2)])
  moreover have "stdout s ! 1 = found_text (length (listed_devices d))"
    by (simp add: s(2))
  moreover have "(\<forall>dev \<in> set (listed_devices d).
             newline_free (deviceName (vkGetPhysicalDeviceProperties d dev))) \<longrightarrow>
          length (device_lines s) = length (listed_devices d)"
    using lines_of_run [OF s(2)] by simp
  moreover have "unat (device_count d)
            \<le> length (snd (enumerate_fill d (created_instance d) (device_count d))) \<longrightarrow>
          length (listed_devices d) = unat (device_count d)"
    by (simp add: listed_devices_def)
  ultimately show "\<exists>s. main h d = (Inr 0, s) \<and>
         stdout s ! 1 = found_text (length (listed_devices d)) \<and>
         device_listing s =
           map (device_line_text \<circ> vkGetPhysicalDeviceProperties d) (listed_devices d) \<and>
         ((\<forall>dev \<in> set (listed_devices d).
             newline_free (deviceName (vkGetPhysicalDeviceProperties d dev))) \<longrightarrow>
          length (device_lines s) = length (listed_devices d)) \<and>
         (unat (device_count d)
            \<le> length (snd (enumerate_fill d (created_instance d) (device_count d))) \<longrightarrow>
          length (listed_devices d) = unat (device_count d))"
    using s(1) by blast
next
  assume "create_status d' = create_status d \<and> count_status d' = count_status d \<and>
    device_count d' = device_count d"
  then show "exit_code h d' = exit_code h d"
    by (simp add: exit_code_value)
qed

theorem second_enumeration_status_discarded_witness:
  "main (sample_host 1000) (sample_driver None 0 (0, 2) (- 1, [0xA, 0xB])) =
   main (sample_host 1000) (sample_driver None 0 (0, 2) (0, [0xA, 0xB])) \<and>
   (\<exists>s. main (sample_host 1000) (sample_driver None 0 (0, 2) (0, [0xA, 0xB])) = (Inr 0, s) \<and>
      stdout s ! 1 = ''[vk] Found 2 physical device(s)\<newline>'' \<and>
      length (device_listing s) = 2 \<and> length (device_lines s) = 2) \<and>
   exit_code (sample_host 1000) (sample_driver None 0 (0, 2) (- 1, [0xA, 0xB])) =
   exit_code (sample_host 1000) (sample_driver None 0 (0, 2) (0, [0xA, 0xB]))"
proof -
  let ?h = "sample_host 1000"
  let ?d = "sample_driver None 0 (0, 2) (0, [0xA, 0xB])"
  let ?d' = "sample_driver None 0 (0, 2) (- 1, [0xA, 0xB])"
  have upd: "?d\<lparr>enumerate_fill := \<lambda>inst capacity. (- 1, snd (enumerate_fill ?d inst capacity))\<rparr>
             = ?d'"
    by (simp add: sample_driver_def)
  have len: "length (listed_devices ?d) = 2"
    by (simp add: sample_driver_responses)
  have found: "found_text 2 = ''[vk] Found 2 physical device(s)\<newline>''"
    by (simp add: found_text_def fmt_eval)
  have ok: "create_status ?d = VK_SUCCESS \<and> count_status ?d = VK_SUCCESS \<and>
    device_count ?d \<noteq> 0 \<and> can_allocate ?h (unat (device_count ?d))"
    by (simp add: sample_driver_responses VK_SUCCESS_def sample_host_allocates)
  have names: "\<forall>dev \<in> set (listed_devices ?d).
             newline_free (deviceName (vkGetPhysicalDeviceProperties ?d dev))"
    by (simp add: sample_driver_responses sample_names)
  have same: "create_status ?d' = create_status ?d \<and> count_status ?d' = count_status ?d \<and>
    device_count ?d' = device_count ?d"
    by (simp add: sample_driver_responses)
  note inst = second_enumeration_status_discarded
    [where h = ?h and d = ?d and r = "- 1" and d' = ?d']
  from inst have "main ?h ?d' = main ?h ?d"
    by (simp only: upd)
  moreover from inst ok names obtain s where "main ?h ?d = (Inr 0, s)"
      "stdout s ! 1 = found_text (length (listed_devices ?d))"
      "device_listing s =
         map (device_line_text \<circ> vkGetPhysicalDeviceProperties ?d) (listed_devices ?d)"
      "length (device_lines s) = length (listed_devices ?d)"
    by blast
  then have "\<exists>s. main ?h ?d = (Inr 0, s) \<and>
      stdout s ! 1 = ''[vk] Found 2 physical device(s)\<newline>'' \<and>
      length (device_listing s) = 2 \<and> length (device_lines s) = 2"
    by (simp add: len found)
  moreover from inst same have "exit_code ?h ?d' = exit_code ?h ?d"
    by blast
  ultimately show ?thesis by blast
qed

end
